theory Spec2Isabelle
  imports Complex_Main "HOL-Library.Log_Nat"
begin

section \<open>The order service of \<open>src/app.js\<close>\<close>

text \<open>
  The service is an Express application instrumented with OpenTelemetry. Its handlers
  are asynchronous JavaScript functions; each of them is embedded here as a function
  that takes the state of the process (the \<open>world\<close>) and returns its response
  together with the new state. Everything the handlers take from outside is a field of
  the state:
  \<^item> the values \<open>Math.random()\<close> returns are the sequence \<open>rand_seq\<close>, read at
    \<open>rand_pos\<close>; a draw is a rational number, and the theorems that need it say that it
    lies in \<open>[0, 1)\<close>, or that it is a binary64 value there;
  \<^item> the clock of the timers is \<open>clock\<close>, in milliseconds; a timer of \<open>setTimeout\<close>
    moves it forward by the time the timer waits, and the spans take their timestamps
    from it;
  \<^item> \<open>Date.now()\<close> reads the wall clock, which the process does not control: each
    reading is the clock of the timers plus a skew that the environment supplies for
    that reading, the sequence \<open>wall_skew\<close> read at \<open>wall_pos\<close> (the lateness of the event
    loop, an adjustment of the system clock, forward or back);
  \<^item> the tracer's spans are a table from handles to span records, the three
    instruments are the lists of the calls they received, the logger is the list of
    its entries.
  One request runs from its first statement to its last without another request in
  between. A handler starts with no active span: the spans that the automatic
  instrumentation of \<open>tracing.js\<close> puts around a request are not part of the model, so
  the span a handler starts is a root.
\<close>

subsection \<open>Spans\<close>

datatype SpanStatusCode = UNSET | OK | ERROR

datatype attr_value = AStr string | ANum rat | ABool bool

record span =
  span_name :: string
  parent :: "nat option"
  attributes :: "string \<rightharpoonup> attr_value"
  status_code :: SpanStatusCode
  status_message :: string
  start_time :: rat
  end_time :: "rat option"
  end_calls :: nat

subsection \<open>Orders, responses, errors, log entries\<close>

record order =
  order_id :: string
  order_amount :: rat
  order_status :: string

text \<open>The values a property read on \<open>ordersDb\<close> can give.\<close>

datatype js_value =
    Undefined
  | OrderObject order
  | BuiltinFunction string
  | ObjectPrototype

datatype json_body =
    JsonValue js_value
  | JsonList "order list"
  | JsonError string
  | JsonStatus string

record response =
  res_status :: nat
  res_body :: json_body

datatype js_error = Error string

fun message :: "js_error \<Rightarrow> string" where
  "message (Error m) = m"

datatype log_level = Info | Warn | Err

type_synonym log_entry = "log_level \<times> (string \<times> attr_value) list \<times> string"

subsection \<open>The state of the process\<close>

record world =
  ordersDb :: "(string \<times> order) list"
  ordersCreated :: "(int \<times> string) list"
  orderProcessingTime :: "rat list"
  ordersInProgress :: "int list"
  spans :: "nat \<rightharpoonup> span"
  next_span :: nat
  logs :: "log_entry list"
  clock :: rat
  rand_seq :: "nat \<Rightarrow> rat"
  rand_pos :: nat
  wall_skew :: "nat \<Rightarrow> int"
  wall_pos :: nat

text \<open>
  The process as \<open>app.js\<close> starts it: nothing stored, nothing recorded. Its wall clock
  is in step with the clock of the timers.
\<close>

definition initial_world :: "(nat \<Rightarrow> rat) \<Rightarrow> world" where
  "initial_world draws =
     \<lparr> ordersDb = [], ordersCreated = [], orderProcessingTime = [],
       ordersInProgress = [], spans = Map.empty, next_span = 0, logs = [],
       clock = 0, rand_seq = draws, rand_pos = 0, wall_skew = (\<lambda>n. 0), wall_pos = 0 \<rparr>"

subsection \<open>Randomness, clock and timers\<close>

text \<open>
  A number is a binary64 value, held as the rational it denotes. The product, the sum
  and the quotient of two numbers are the exact results rounded to the nearest binary64
  value, a tie to the even significand: \<open>binade x\<close> is the exponent \<open>e\<close> with
  \<open>2^e \<le> |x| < 2^(e+1)\<close>, and the values near \<open>x\<close> are the multiples of \<open>2^(e - 52)\<close>
  (of \<open>2^-1074\<close> below the normal range). No result here comes near \<open>2^1024\<close>, and the
  overflow to infinity is left out. The identifier and the amount of an order are
  computed so; the delay of a timer is kept as the exact value, which the timer waits.
\<close>

definition binade :: "rat \<Rightarrow> int" where
  "binade x =
     (let (p, q) = quotient_of \<bar>x\<bar>;
          d = bitlen p - bitlen q
      in if 2 powi d \<le> \<bar>x\<bar> then d else d - 1)"

definition round_half_even :: "rat \<Rightarrow> int" where
  "round_half_even t =
     (let f = \<lfloor>t\<rfloor>
      in if t - of_int f < 1 / 2 then f
         else if 1 / 2 < t - of_int f then f + 1
         else if even f then f else f + 1)"

definition binary64 :: "rat \<Rightarrow> rat" where
  "binary64 x =
     (if x = 0 then 0
      else let q = 2 powi (max (binade x) (- 1022) - 52)
           in of_int (round_half_even (x / q)) * q)"

definition Math_random :: "world \<Rightarrow> rat \<times> world" where
  "Math_random s = (rand_seq s (rand_pos s), s\<lparr>rand_pos := Suc (rand_pos s)\<rparr>)"

definition Math_floor :: "rat \<Rightarrow> int" where
  "Math_floor x = \<lfloor>x\<rfloor>"

text \<open>\<open>Math.round\<close> rounds to the nearest integer, a half towards plus infinity.\<close>

definition Math_round :: "rat \<Rightarrow> int" where
  "Math_round x = \<lfloor>x + 1 / 2\<rfloor>"

definition Date_now :: "world \<Rightarrow> int \<times> world" where
  "Date_now s =
     (\<lfloor>clock s\<rfloor> + wall_skew s (wall_pos s), s\<lparr>wall_pos := Suc (wall_pos s)\<rparr>)"

text \<open>
  Node replaces a delay outside \<open>[1, 2^31 - 1]\<close> by 1 millisecond. The callback of the
  timer is the continuation of the caller, so the timer is the advance of the clock.
\<close>

definition timer_wait :: "rat \<Rightarrow> rat" where
  "timer_wait delay = (if 1 \<le> delay \<and> delay \<le> 2147483647 then delay else 1)"

definition setTimeout :: "rat \<Rightarrow> world \<Rightarrow> world" where
  "setTimeout delay s = s\<lparr>clock := clock s + timer_wait delay\<rparr>"

subsection \<open>The tracer\<close>

text \<open>
  \<open>startActiveSpan\<close> creates a span under the active span \<open>ctx\<close> of the caller and runs
  the callback with the new span active. It neither ends the span nor sets its
  status: both are left to the callback.
\<close>

definition new_span :: "string \<Rightarrow> nat option \<Rightarrow> rat \<Rightarrow> span" where
  "new_span name ctx now =
     \<lparr> span_name = name, parent = ctx, attributes = Map.empty, status_code = UNSET,
       status_message = [], start_time = now, end_time = None, end_calls = 0 \<rparr>"

definition startActiveSpan ::
  "nat option \<Rightarrow> string \<Rightarrow> (nat \<Rightarrow> world \<Rightarrow> 'a \<times> world) \<Rightarrow> world \<Rightarrow> 'a \<times> world" where
  "startActiveSpan ctx name fn s =
     (let sp = next_span s;
          s1 = s\<lparr>spans := (spans s)(sp \<mapsto> new_span name ctx (clock s)),
                 next_span := Suc sp\<rparr>
      in fn sp s1)"

definition update_span :: "nat \<Rightarrow> (span \<Rightarrow> span) \<Rightarrow> world \<Rightarrow> world" where
  "update_span sp f s =
     (case spans s sp of
        None \<Rightarrow> s
      | Some r \<Rightarrow> s\<lparr>spans := (spans s)(sp \<mapsto> f r)\<rparr>)"

text \<open>On a span that has ended, \<open>setAttribute\<close> and \<open>setStatus\<close> do nothing.\<close>

definition setAttribute :: "nat \<Rightarrow> string \<Rightarrow> attr_value \<Rightarrow> world \<Rightarrow> world" where
  "setAttribute sp k v s =
     update_span sp
       (\<lambda>r. if end_time r = None then r\<lparr>attributes := (attributes r)(k \<mapsto> v)\<rparr> else r) s"

definition setStatus :: "nat \<Rightarrow> SpanStatusCode \<Rightarrow> string \<Rightarrow> world \<Rightarrow> world" where
  "setStatus sp c m s =
     update_span sp
       (\<lambda>r. if end_time r = None then r\<lparr>status_code := c, status_message := m\<rparr> else r) s"

text \<open>
  \<open>span.end()\<close> sets the end timestamp the first time only; \<open>end_calls\<close> counts every
  call.
\<close>

definition span_end :: "nat \<Rightarrow> world \<Rightarrow> world" where
  "span_end sp s =
     update_span sp
       (\<lambda>r. r\<lparr>end_time := (if end_time r = None then Some (clock s) else end_time r),
               end_calls := Suc (end_calls r)\<rparr>) s"

subsection \<open>The instruments and the logger\<close>

definition ordersCreated_add :: "int \<Rightarrow> string \<Rightarrow> world \<Rightarrow> world" where
  "ordersCreated_add d label s = s\<lparr>ordersCreated := ordersCreated s @ [(d, label)]\<rparr>"

definition orderProcessingTime_record :: "rat \<Rightarrow> world \<Rightarrow> world" where
  "orderProcessingTime_record v s = s\<lparr>orderProcessingTime := orderProcessingTime s @ [v]\<rparr>"

definition ordersInProgress_add :: "int \<Rightarrow> world \<Rightarrow> world" where
  "ordersInProgress_add d s = s\<lparr>ordersInProgress := ordersInProgress s @ [d]\<rparr>"

text \<open>The value of the up-down counter is the sum of what was added to it.\<close>

definition in_flight :: "world \<Rightarrow> int" where
  "in_flight s = sum_list (ordersInProgress s)"

definition logger :: "log_level \<Rightarrow> (string \<times> attr_value) list \<Rightarrow> string \<Rightarrow> world \<Rightarrow> world" where
  "logger lvl flds msg s = s\<lparr>logs := logs s @ [(lvl, flds, msg)]\<rparr>"

subsection \<open>The order store\<close>

text \<open>
  \<open>ordersDb\<close> is a plain object: its own properties are the association list, in the
  order of their creation, and a read of a key it does not own goes on to
  \<open>Object.prototype\<close>.
\<close>

definition own_property :: "(string \<times> order) list \<Rightarrow> string \<rightharpoonup> order" where
  "own_property db k = map_of db k"

definition Object_prototype_keys :: "string list" where
  "Object_prototype_keys =
     [''constructor'', ''__defineGetter__'', ''__defineSetter__'', ''hasOwnProperty'',
      ''__lookupGetter__'', ''__lookupSetter__'', ''isPrototypeOf'',
      ''propertyIsEnumerable'', ''toString'', ''valueOf'', ''toLocaleString'']"

definition get_property :: "(string \<times> order) list \<Rightarrow> string \<Rightarrow> js_value" where
  "get_property db k =
     (case own_property db k of
        Some v \<Rightarrow> OrderObject v
      | None \<Rightarrow>
          if k = ''__proto__'' then ObjectPrototype
          else if k \<in> set Object_prototype_keys then BuiltinFunction k
          else Undefined)"

fun truthy :: "js_value \<Rightarrow> bool" where
  "truthy Undefined = False"
| "truthy (OrderObject v) = True"
| "truthy (BuiltinFunction f) = True"
| "truthy ObjectPrototype = True"

text \<open>
  An assignment creates an own property, or replaces the value of one and keeps its
  place. (The handlers assign under generated identifiers only.)
\<close>

fun set_property :: "(string \<times> order) list \<Rightarrow> string \<Rightarrow> order \<Rightarrow> (string \<times> order) list" where
  "set_property [] k v = [(k, v)]"
| "set_property ((k', v') # db) k v =
     (if k' = k then (k, v) # db else (k', v') # set_property db k v)"

subsection \<open>Decimal strings\<close>

definition digit_char :: "nat \<Rightarrow> char" where
  "digit_char d = ''0123456789'' ! d"

fun String_nat :: "nat \<Rightarrow> string" where
  "String_nat n =
     (if n < 10 then [digit_char n] else String_nat (n div 10) @ [digit_char (n mod 10)])"

declare String_nat.simps [simp del]

text \<open>\<open>String(n)\<close> of an integer.\<close>

definition String_int :: "int \<Rightarrow> string" where
  "String_int i = (if i < 0 then CHR ''-'' # String_nat (nat (- i)) else String_nat (nat i))"

definition is_digit :: "char \<Rightarrow> bool" where
  "is_digit c = (48 \<le> (of_char c :: nat) \<and> (of_char c :: nat) \<le> 57)"

fun digits_value :: "string \<Rightarrow> nat \<Rightarrow> nat" where
  "digits_value [] acc = acc"
| "digits_value (c # cs) acc = digits_value cs (10 * acc + (of_char c - 48))"

text \<open>
  A key is an array index when it is the decimal string of an integer below
  \<open>2^32 - 1\<close>. \<open>Object.values\<close> lists the values under such keys first, by ascending
  index, and the other values after them in the order of their creation.
\<close>

definition array_index :: "string \<Rightarrow> nat option" where
  "array_index k =
     (if k \<noteq> [] \<and> list_all is_digit k \<and> (k = ''0'' \<or> hd k \<noteq> CHR ''0'')
         \<and> digits_value k 0 < 4294967295
      then Some (digits_value k 0) else None)"

definition Object_values :: "(string \<times> order) list \<Rightarrow> order list" where
  "Object_values db =
     map snd (sort_key (\<lambda>(k, v). digits_value k 0) (filter (\<lambda>(k, v). array_index k \<noteq> None) db))
     @ map snd (filter (\<lambda>(k, v). array_index k = None) db)"

subsection \<open>The simulated calls\<close>

definition default_durationRange :: "rat \<times> rat" where
  "default_durationRange = (10, 50)"

text \<open>
  \<open>simulateDbQuery\<close>: a span \<open>db.<queryType>\<close>, one draw for the delay, the timer, the
  end of the span. Its promise has no way to reject, so the result is the new state.
\<close>

definition simulateDbQuery :: "nat option \<Rightarrow> string \<Rightarrow> rat \<times> rat \<Rightarrow> world \<Rightarrow> world" where
  "simulateDbQuery ctx queryType durationRange s =
     snd (startActiveSpan ctx (''db.'' @ queryType)
       (\<lambda>sp s1.
          let s2 = setAttribute sp ''db.system'' (AStr ''postgresql'') s1;
              s3 = setAttribute sp ''db.operation'' (AStr queryType) s2;
              (r, s4) = Math_random s3;
              delay = r * (snd durationRange - fst durationRange) + fst durationRange;
              s5 = setTimeout delay s4;
              s6 = span_end sp s5
          in ((), s6)) s)"

text \<open>The three decisions of \<open>simulatePaymentProcessing\<close>, each on a draw of its own.\<close>

definition payment_isSlow :: "rat \<Rightarrow> bool" where
  "payment_isSlow r = (r < 1 / 10)"

definition payment_delay :: "bool \<Rightarrow> rat \<Rightarrow> rat" where
  "payment_delay isSlow r = (if isSlow then r * 2000 + 1000 else r * 150 + 50)"

definition payment_declined :: "rat \<Rightarrow> bool" where
  "payment_declined r = (r < 5 / 100)"

text \<open>
  \<open>simulatePaymentProcessing\<close>: the promise rejects with \<open>Error ''Payment declined''\<close>
  (\<open>Inl\<close>) or resolves (\<open>Inr\<close>); the state changes either way.
\<close>

definition simulatePaymentProcessing ::
  "nat option \<Rightarrow> string \<Rightarrow> rat \<Rightarrow> world \<Rightarrow> (js_error + unit) \<times> world" where
  "simulatePaymentProcessing ctx orderId amount s =
     startActiveSpan ctx ''payment.process''
       (\<lambda>sp s1.
          let s2 = setAttribute sp ''payment.order_id'' (AStr orderId) s1;
              s3 = setAttribute sp ''payment.amount'' (ANum amount) s2;
              (r1, s4) = Math_random s3;
              isSlow = payment_isSlow r1;
              (r2, s5) = Math_random s4;
              delay = payment_delay isSlow r2;
              s6 = (if isSlow
                    then logger Warn
                           [(''orderId'', AStr orderId),
                            (''delay'', ANum (of_int (Math_round delay)))]
                           ''Paiement lent pour commande''
                           (setAttribute sp ''payment.slow'' (ABool True) s5)
                    else s5);
              s7 = setTimeout delay s6;
              (r3, s8) = Math_random s7
          in if payment_declined r3
             then (Inl (Error ''Payment declined''),
                   span_end sp (setStatus sp ERROR ''Payment declined'' s8))
             else (Inr (), span_end sp s8)) s"

subsection \<open>The handlers\<close>

definition get_health :: "world \<Rightarrow> response \<times> world" where
  "get_health s = (\<lparr>res_status = 200, res_body = JsonStatus ''healthy''\<rparr>, s)"

text \<open>
  The identifier and the amount of an order, each computed from one draw, in binary64:
  \<open>String(Math.floor(Math.random() * 90000) + 10000)\<close> and
  \<open>Math.round((Math.random() * 490 + 10) * 100) / 100\<close>. \<open>Math.floor\<close> and \<open>Math.round\<close>
  give integers, and the sum of two integers below \<open>2^53\<close> is exact.
\<close>

definition orderId_of :: "rat \<Rightarrow> string" where
  "orderId_of r = String_int (Math_floor (binary64 (r * 90000)) + 10000)"

definition amount_of :: "rat \<Rightarrow> rat" where
  "amount_of r =
     binary64 (of_int (Math_round (binary64 (binary64 (binary64 (r * 490) + 10) * 100))) / 100)"

text \<open>
  The callback of the span \<open>create_order\<close> in \<open>POST /orders\<close>. A rejected payment
  leaves it at the \<open>await\<close>: what follows in the callback does not run.
\<close>

definition create_order :: "nat \<Rightarrow> world \<Rightarrow> (js_error + response) \<times> world" where
  "create_order sp s =
     (let (r1, s1) = Math_random s;
          orderId = orderId_of r1;
          (r2, s2) = Math_random s1;
          amount = amount_of r2;
          s3 = setAttribute sp ''order.id'' (AStr orderId) s2;
          s4 = setAttribute sp ''order.amount'' (ANum amount) s3;
          s5 = simulateDbQuery (Some sp) ''check_inventory'' default_durationRange s4;
          s6 = simulateDbQuery (Some sp) ''insert_order'' default_durationRange s5
      in case simulatePaymentProcessing (Some sp) orderId amount s6 of
           (Inl err, s7) \<Rightarrow> (Inl err, s7)
         | (Inr u, s7) \<Rightarrow>
             (let s8 = simulateDbQuery (Some sp) ''update_order_status''
                         default_durationRange s7;
                  s9 = s8\<lparr>ordersDb := set_property (ordersDb s8) orderId
                            \<lparr>order_id = orderId, order_amount = amount, order_status = ''confirmed''\<rparr>\<rparr>;
                  s10 = ordersCreated_add 1 ''success'' s9;
                  s11 = logger Info
                          [(''orderId'', AStr orderId), (''amount'', ANum amount),
                           (''status'', AStr ''confirmed'')]
                          ''Commande creee avec succes'' s10;
                  s12 = span_end sp s11
              in (Inr \<lparr>res_status = 201,
                       res_body = JsonValue (get_property (ordersDb s12) orderId)\<rparr>, s12)))"

text \<open>
  \<open>POST /orders\<close>: entry, the \<open>try\<close> with its \<open>catch\<close>, then the \<open>finally\<close>. Of the two
  fields the \<open>catch\<close> logs, the message of the error is kept and its stack is not.
\<close>

definition post_orders :: "world \<Rightarrow> response \<times> world" where
  "post_orders s =
     (let (startTime, s0) = Date_now s;
          s1 = ordersInProgress_add 1 s0;
          (res, s2) =
            (case startActiveSpan None ''create_order'' create_order s1 of
               (Inr r, s') \<Rightarrow> (r, s')
             | (Inl err, s') \<Rightarrow>
                 (\<lparr>res_status = 500, res_body = JsonError (message err)\<rparr>,
                  logger Err [(''error'', AStr (message err))]
                    ''Erreur lors de la creation de commande''
                    (ordersCreated_add 1 ''error'' s')));
          s3 = ordersInProgress_add (- 1) s2;
          (endTime, s3') = Date_now s3;
          duration = of_int (endTime - startTime) / 1000;
          s4 = orderProcessingTime_record duration s3'
      in (res, s4))"

text \<open>\<open>GET /orders\<close>\<close>

definition get_orders :: "world \<Rightarrow> response \<times> world" where
  "get_orders s =
     startActiveSpan None ''list_orders''
       (\<lambda>sp s1.
          let s2 = simulateDbQuery (Some sp) ''select_all_orders'' default_durationRange s1;
              s3 = span_end sp s2
          in (\<lparr>res_status = 200, res_body = JsonList (Object_values (ordersDb s3))\<rparr>, s3)) s"

text \<open>\<open>GET /orders/:orderId\<close>\<close>

definition get_order :: "string \<Rightarrow> world \<Rightarrow> response \<times> world" where
  "get_order orderId s =
     startActiveSpan None ''get_order''
       (\<lambda>sp s1.
          let s2 = setAttribute sp ''order.id'' (AStr orderId) s1;
              s3 = simulateDbQuery (Some sp) ''select_order'' default_durationRange s2;
              ord = get_property (ordersDb s3) orderId;
              s4 = span_end sp s3
          in if truthy ord
             then (\<lparr>res_status = 200, res_body = JsonValue ord\<rparr>, s4)
             else (\<lparr>res_status = 404, res_body = JsonError ''Order not found''\<rparr>, s4)) s"

text \<open>The requests of the service, and a run of the process over a list of them.\<close>

datatype request = PostOrders | GetOrders | GetOrder string | GetHealth

fun handle :: "request \<Rightarrow> world \<Rightarrow> response \<times> world" where
  "handle PostOrders s = post_orders s"
| "handle GetOrders s = get_orders s"
| "handle (GetOrder k) s = get_order k s"
| "handle GetHealth s = get_health s"

fun serve :: "request list \<Rightarrow> world \<Rightarrow> world" where
  "serve [] s = s"
| "serve (r # rs) s = serve rs (snd (handle r s))"

text \<open>
  Sequences of draws: every draw one half; the same with the seventh draw low; every
  draw zero.
\<close>

definition draws_half :: "nat \<Rightarrow> rat" where
  "draws_half n = 1 / 2"

definition draws_declined :: "nat \<Rightarrow> rat" where
  "draws_declined n = (if n = 6 then 1 / 100 else 1 / 2)"


text \<open>Every draw one half but the amount of a second order, drawn at a quarter.\<close>

definition draws_collision :: "nat \<Rightarrow> rat" where
  "draws_collision n = (if n = 9 then 1 / 4 else 1 / 2)"

text \<open>Every draw one half but the identifier of a second order, drawn at a quarter.\<close>

definition draws_distinct :: "nat \<Rightarrow> rat" where
  "draws_distinct n = (if n = 8 then 1 / 4 else 1 / 2)"

text \<open>
  A process whose system clock is set back by one second after the first reading of
  \<open>Date.now()\<close>.
\<close>

definition clock_set_back :: world where
  "clock_set_back =
     (initial_world draws_half)\<lparr>wall_skew := (\<lambda>n. if n = 0 then 0 else - 1000)\<rparr>"

subsection \<open>Properties of a request\<close>

text \<open>
  A \<open>POST /orders\<close> request that starts in \<open>s\<close> takes eight draws: identifier, amount,
  the delays of \<open>check_inventory\<close> and \<open>insert_order\<close>, the three draws of the payment,
  the delay of \<open>update_order_status\<close>. The seventh is the failure draw of the payment.
\<close>

definition declined :: "world \<Rightarrow> bool" where
  "declined s = payment_declined (rand_seq s (rand_pos s + 6))"

text \<open>A span that has its end timestamp; a span that ends no later than another.\<close>

definition ended :: "world \<Rightarrow> nat \<Rightarrow> bool" where
  "ended s i = (case spans s i of None \<Rightarrow> False | Some r \<Rightarrow> end_time r \<noteq> None)"

definition ends_within :: "world \<Rightarrow> nat \<Rightarrow> nat \<Rightarrow> bool" where
  "ends_within s i j =
     (case (spans s i, spans s j) of
        (Some c, Some p) \<Rightarrow>
          (case (end_time c, end_time p) of (Some a, Some b) \<Rightarrow> a \<le> b | _ \<Rightarrow> False)
      | _ \<Rightarrow> False)"

section \<open>How each operation changes the state\<close>

lemma update_span_frame [simp]:
  "ordersDb (update_span sp f s) = ordersDb s"
  "ordersCreated (update_span sp f s) = ordersCreated s"
  "orderProcessingTime (update_span sp f s) = orderProcessingTime s"
  "ordersInProgress (update_span sp f s) = ordersInProgress s"
  "next_span (update_span sp f s) = next_span s"
  "logs (update_span sp f s) = logs s"
  "clock (update_span sp f s) = clock s"
  "rand_seq (update_span sp f s) = rand_seq s"
  "rand_pos (update_span sp f s) = rand_pos s"
  "wall_skew (update_span sp f s) = wall_skew s"
  "wall_pos (update_span sp f s) = wall_pos s"
  by (simp_all add: update_span_def split: option.splits)

lemma update_span_spans [simp]:
  "spans (update_span sp f s) = (spans s)(sp := map_option f (spans s sp))"
  by (auto simp: update_span_def split: option.splits)

lemma setAttribute_frame [simp]:
  "ordersDb (setAttribute sp k v s) = ordersDb s"
  "ordersCreated (setAttribute sp k v s) = ordersCreated s"
  "orderProcessingTime (setAttribute sp k v s) = orderProcessingTime s"
  "ordersInProgress (setAttribute sp k v s) = ordersInProgress s"
  "next_span (setAttribute sp k v s) = next_span s"
  "logs (setAttribute sp k v s) = logs s"
  "clock (setAttribute sp k v s) = clock s"
  "rand_seq (setAttribute sp k v s) = rand_seq s"
  "rand_pos (setAttribute sp k v s) = rand_pos s"
  "wall_skew (setAttribute sp k v s) = wall_skew s"
  "wall_pos (setAttribute sp k v s) = wall_pos s"
  by (simp_all add: setAttribute_def)

lemma setStatus_frame [simp]:
  "ordersDb (setStatus sp c m s) = ordersDb s"
  "ordersCreated (setStatus sp c m s) = ordersCreated s"
  "orderProcessingTime (setStatus sp c m s) = orderProcessingTime s"
  "ordersInProgress (setStatus sp c m s) = ordersInProgress s"
  "next_span (setStatus sp c m s) = next_span s"
  "logs (setStatus sp c m s) = logs s"
  "clock (setStatus sp c m s) = clock s"
  "rand_seq (setStatus sp c m s) = rand_seq s"
  "rand_pos (setStatus sp c m s) = rand_pos s"
  "wall_skew (setStatus sp c m s) = wall_skew s"
  "wall_pos (setStatus sp c m s) = wall_pos s"
  by (simp_all add: setStatus_def)

lemma span_end_frame [simp]:
  "ordersDb (span_end sp s) = ordersDb s"
  "ordersCreated (span_end sp s) = ordersCreated s"
  "orderProcessingTime (span_end sp s) = orderProcessingTime s"
  "ordersInProgress (span_end sp s) = ordersInProgress s"
  "next_span (span_end sp s) = next_span s"
  "logs (span_end sp s) = logs s"
  "clock (span_end sp s) = clock s"
  "rand_seq (span_end sp s) = rand_seq s"
  "rand_pos (span_end sp s) = rand_pos s"
  "wall_skew (span_end sp s) = wall_skew s"
  "wall_pos (span_end sp s) = wall_pos s"
  by (simp_all add: span_end_def)

lemma setAttribute_spans:
  "spans (setAttribute sp k v s) =
     (spans s)(sp := map_option
        (\<lambda>r. if end_time r = None then r\<lparr>attributes := (attributes r)(k \<mapsto> v)\<rparr> else r)
        (spans s sp))"
  by (simp add: setAttribute_def)

lemma setStatus_spans:
  "spans (setStatus sp c m s) =
     (spans s)(sp := map_option
        (\<lambda>r. if end_time r = None then r\<lparr>status_code := c, status_message := m\<rparr> else r)
        (spans s sp))"
  by (simp add: setStatus_def)

lemma span_end_spans:
  "spans (span_end sp s) =
     (spans s)(sp := map_option
        (\<lambda>r. r\<lparr>end_time := (if end_time r = None then Some (clock s) else end_time r),
                end_calls := Suc (end_calls r)\<rparr>)
        (spans s sp))"
  by (simp add: span_end_def)

lemmas tracer_spans = setAttribute_spans setStatus_spans span_end_spans

lemmas io_defs = Math_random_def setTimeout_def logger_def ordersCreated_add_def
  orderProcessingTime_record_def ordersInProgress_add_def

lemma simulateDbQuery_frame [simp]:
  "ordersDb (simulateDbQuery ctx q rng s) = ordersDb s"
  "ordersCreated (simulateDbQuery ctx q rng s) = ordersCreated s"
  "orderProcessingTime (simulateDbQuery ctx q rng s) = orderProcessingTime s"
  "ordersInProgress (simulateDbQuery ctx q rng s) = ordersInProgress s"
  "next_span (simulateDbQuery ctx q rng s) = Suc (next_span s)"
  "logs (simulateDbQuery ctx q rng s) = logs s"
  "rand_seq (simulateDbQuery ctx q rng s) = rand_seq s"
  "rand_pos (simulateDbQuery ctx q rng s) = Suc (rand_pos s)"
  "wall_skew (simulateDbQuery ctx q rng s) = wall_skew s"
  "wall_pos (simulateDbQuery ctx q rng s) = wall_pos s"
  by (simp_all add: simulateDbQuery_def startActiveSpan_def io_defs Let_def split_def)

lemma simulateDbQuery_clock:
  "clock (simulateDbQuery ctx q rng s) =
     clock s + timer_wait (rand_seq s (rand_pos s) * (snd rng - fst rng) + fst rng)"
  by (simp add: simulateDbQuery_def startActiveSpan_def io_defs Let_def split_def)

lemma simulateDbQuery_spans:
  "spans (simulateDbQuery ctx q rng s) =
     (spans s)(next_span s \<mapsto>
       \<lparr> span_name = ''db.'' @ q, parent = ctx,
         attributes = [''db.system'' \<mapsto> AStr ''postgresql'', ''db.operation'' \<mapsto> AStr q],
         status_code = UNSET, status_message = [], start_time = clock s,
         end_time = Some (clock (simulateDbQuery ctx q rng s)),
         end_calls = 1 \<rparr>)"
  by (simp add: simulateDbQuery_def startActiveSpan_def io_defs tracer_spans new_span_def
        Let_def split_def)

lemma pay_fst:
  "fst (simulatePaymentProcessing ctx oid amt s) =
     (if payment_declined (rand_seq s (rand_pos s + 2)) then Inl (Error ''Payment declined'') else Inr ())"
  by (simp add: simulatePaymentProcessing_def startActiveSpan_def io_defs Let_def split_def)

lemma pay_frame [simp]:
  "ordersDb (snd (simulatePaymentProcessing ctx oid amt s)) = ordersDb s"
  "ordersCreated (snd (simulatePaymentProcessing ctx oid amt s)) = ordersCreated s"
  "orderProcessingTime (snd (simulatePaymentProcessing ctx oid amt s)) = orderProcessingTime s"
  "ordersInProgress (snd (simulatePaymentProcessing ctx oid amt s)) = ordersInProgress s"
  "rand_seq (snd (simulatePaymentProcessing ctx oid amt s)) = rand_seq s"
  "rand_pos (snd (simulatePaymentProcessing ctx oid amt s)) = rand_pos s + 3"
  "next_span (snd (simulatePaymentProcessing ctx oid amt s)) = Suc (next_span s)"
  "wall_skew (snd (simulatePaymentProcessing ctx oid amt s)) = wall_skew s"
  "wall_pos (snd (simulatePaymentProcessing ctx oid amt s)) = wall_pos s"
  by (simp_all add: simulatePaymentProcessing_def startActiveSpan_def io_defs Let_def split_def)

lemma pay_clock:
  "clock (snd (simulatePaymentProcessing ctx oid amt s)) =
     clock s + timer_wait (payment_delay (payment_isSlow (rand_seq s (rand_pos s))) (rand_seq s (Suc (rand_pos s))))"
  by (simp add: simulatePaymentProcessing_def startActiveSpan_def io_defs Let_def split_def)

lemma timer_wait_pos: "1 \<le> timer_wait d"
  by (simp add: timer_wait_def)

lemma simulateDbQuery_clock_mono: "clock s \<le> clock (simulateDbQuery ctx q rng s)"
  using timer_wait_pos [of "rand_seq s (rand_pos s) * (snd rng - fst rng) + fst rng"]
  by (simp add: simulateDbQuery_clock)

lemma pay_clock_mono: "clock s \<le> clock (snd (simulatePaymentProcessing ctx oid amt s))"
  using timer_wait_pos
    [of "payment_delay (payment_isSlow (rand_seq s (rand_pos s))) (rand_seq s (Suc (rand_pos s)))"]
  by (simp add: pay_clock)

lemma pay_spans:
  "spans (snd (simulatePaymentProcessing ctx oid amt s)) =
     (spans s)(next_span s \<mapsto>
       \<lparr> span_name = ''payment.process'', parent = ctx,
         attributes =
           (if payment_isSlow (rand_seq s (rand_pos s))
            then [''payment.order_id'' \<mapsto> AStr oid, ''payment.amount'' \<mapsto> ANum amt,
                  ''payment.slow'' \<mapsto> ABool True]
            else [''payment.order_id'' \<mapsto> AStr oid, ''payment.amount'' \<mapsto> ANum amt]),
         status_code = (if payment_declined (rand_seq s (rand_pos s + 2)) then ERROR else UNSET),
         status_message =
           (if payment_declined (rand_seq s (rand_pos s + 2)) then ''Payment declined'' else []),
         start_time = clock s,
         end_time = Some (clock (snd (simulatePaymentProcessing ctx oid amt s))),
         end_calls = 1 \<rparr>)"
  by (simp add: simulatePaymentProcessing_def startActiveSpan_def io_defs tracer_spans new_span_def
        Let_def split_def)

lemma map_of_set_property: "map_of (set_property db k v) = (map_of db)(k \<mapsto> v)"
  by (induction db) (auto simp: fun_eq_iff)

lemma get_property_set_property: "get_property (set_property db k v) k = OrderObject v"
  by (simp add: get_property_def own_property_def map_of_set_property)

lemma create_order_unfold:
  "create_order sp s =
     (let orderId = orderId_of (rand_seq s (rand_pos s));
          amount = amount_of (rand_seq s (Suc (rand_pos s)));
          s4 = setAttribute sp ''order.amount'' (ANum amount)
                 (setAttribute sp ''order.id'' (AStr orderId) (s\<lparr>rand_pos := rand_pos s + 2\<rparr>));
          s6 = simulateDbQuery (Some sp) ''insert_order'' default_durationRange
                 (simulateDbQuery (Some sp) ''check_inventory'' default_durationRange s4);
          s7 = snd (simulatePaymentProcessing (Some sp) orderId amount s6)
      in if payment_declined (rand_seq s (rand_pos s + 6))
         then (Inl (Error ''Payment declined''), s7)
         else (Inr \<lparr>res_status = 201,
                    res_body = JsonValue (OrderObject
                      \<lparr>order_id = orderId, order_amount = amount, order_status = ''confirmed''\<rparr>)\<rparr>,
               span_end sp
                 (logger Info
                    [(''orderId'', AStr orderId), (''amount'', ANum amount),
                     (''status'', AStr ''confirmed'')]
                    ''Commande creee avec succes''
                    (ordersCreated_add 1 ''success''
                       ((simulateDbQuery (Some sp) ''update_order_status'' default_durationRange s7)
                          \<lparr>ordersDb := set_property (ordersDb s) orderId
                             \<lparr>order_id = orderId, order_amount = amount,
                              order_status = ''confirmed''\<rparr>\<rparr>)))))"
  by (simp add: create_order_def io_defs Let_def split_def pay_fst
        get_property_set_property eval_nat_numeral)

lemma create_order_fst:
  "fst (create_order sp s) =
     (if declined s then Inl (Error ''Payment declined'')
      else Inr \<lparr>res_status = 201,
                res_body = JsonValue (OrderObject
                  \<lparr>order_id = orderId_of (rand_seq s (rand_pos s)),
                   order_amount = amount_of (rand_seq s (Suc (rand_pos s))),
                   order_status = ''confirmed''\<rparr>)\<rparr>)"
  by (simp add: create_order_unfold declined_def Let_def)

lemma create_order_frame [simp]:
  "ordersInProgress (snd (create_order sp s)) = ordersInProgress s"
  "orderProcessingTime (snd (create_order sp s)) = orderProcessingTime s"
  "rand_seq (snd (create_order sp s)) = rand_seq s"
  "wall_skew (snd (create_order sp s)) = wall_skew s"
  "wall_pos (snd (create_order sp s)) = wall_pos s"
  by (simp_all add: create_order_unfold Let_def io_defs)

lemma create_order_effect:
  "ordersDb (snd (create_order sp s)) =
     (if declined s then ordersDb s
      else set_property (ordersDb s) (orderId_of (rand_seq s (rand_pos s)))
             \<lparr>order_id = orderId_of (rand_seq s (rand_pos s)),
              order_amount = amount_of (rand_seq s (Suc (rand_pos s))),
              order_status = ''confirmed''\<rparr>)"
  "ordersCreated (snd (create_order sp s)) =
     (if declined s then ordersCreated s else ordersCreated s @ [(1, ''success'')])"
  "rand_pos (snd (create_order sp s)) = (if declined s then rand_pos s + 7 else rand_pos s + 8)"
  "next_span (snd (create_order sp s)) = (if declined s then next_span s + 3 else next_span s + 4)"
  by (simp_all add: create_order_unfold declined_def Let_def io_defs)

lemma create_order_clock_mono: "clock s \<le> clock (snd (create_order sp s))"
proof -
  let ?s4 = "setAttribute sp ''order.amount'' (ANum (amount_of (rand_seq s (Suc (rand_pos s)))))
               (setAttribute sp ''order.id'' (AStr (orderId_of (rand_seq s (rand_pos s))))
                  (s\<lparr>rand_pos := rand_pos s + 2\<rparr>))"
  let ?s5 = "simulateDbQuery (Some sp) ''check_inventory'' default_durationRange ?s4"
  let ?s6 = "simulateDbQuery (Some sp) ''insert_order'' default_durationRange ?s5"
  let ?s7 = "snd (simulatePaymentProcessing (Some sp) (orderId_of (rand_seq s (rand_pos s)))
               (amount_of (rand_seq s (Suc (rand_pos s)))) ?s6)"
  let ?s8 = "simulateDbQuery (Some sp) ''update_order_status'' default_durationRange ?s7"
  have a: "clock s = clock ?s4" by simp
  have b: "clock ?s4 \<le> clock ?s5" by (rule simulateDbQuery_clock_mono)
  have c: "clock ?s5 \<le> clock ?s6" by (rule simulateDbQuery_clock_mono)
  have d: "clock ?s6 \<le> clock ?s7" by (rule pay_clock_mono)
  have e: "clock ?s7 \<le> clock ?s8" by (rule simulateDbQuery_clock_mono)
  have f: "clock (snd (create_order sp s)) = (if declined s then clock ?s7 else clock ?s8)"
    by (simp add: create_order_unfold declined_def Let_def io_defs)
  show ?thesis using a b c d e f by (simp split: if_splits)
qed

lemma declined_fold:
  "payment_declined (rand_seq s (rand_pos s + 6)) = declined s"
  "payment_declined (rand_seq s (Suc (Suc (Suc (Suc (Suc (Suc (rand_pos s)))))))) = declined s"
  by (simp_all add: declined_def eval_nat_numeral)

lemma create_order_spans:
  assumes sp: "sp < next_span s" and r: "spans s sp = Some r" and open_r: "end_time r = None"
  shows "spans (snd (create_order sp s)) sp =
           Some (r\<lparr>attributes := (attributes r)
                     (''order.id'' \<mapsto> AStr (orderId_of (rand_seq s (rand_pos s))),
                      ''order.amount'' \<mapsto> ANum (amount_of (rand_seq s (Suc (rand_pos s))))),
                   end_time := (if declined s then None else Some (clock (snd (create_order sp s)))),
                   end_calls := (if declined s then end_calls r else Suc (end_calls r))\<rparr>)"
    and "\<exists>c e. spans (snd (create_order sp s)) (next_span s) = Some c
           \<and> span_name c = ''db.check_inventory'' \<and> parent c = Some sp
           \<and> end_time c = Some e \<and> e \<le> clock (snd (create_order sp s)) \<and> end_calls c = 1"
    and "\<exists>c e. spans (snd (create_order sp s)) (next_span s + 1) = Some c
           \<and> span_name c = ''db.insert_order'' \<and> parent c = Some sp
           \<and> end_time c = Some e \<and> e \<le> clock (snd (create_order sp s)) \<and> end_calls c = 1"
    and "\<exists>c e. spans (snd (create_order sp s)) (next_span s + 2) = Some c
           \<and> span_name c = ''payment.process'' \<and> parent c = Some sp
           \<and> status_code c = (if declined s then ERROR else UNSET)
           \<and> status_message c = (if declined s then ''Payment declined'' else [])
           \<and> end_time c = Some e \<and> e \<le> clock (snd (create_order sp s)) \<and> end_calls c = 1"
    and "\<not> declined s \<Longrightarrow>
         \<exists>c e. spans (snd (create_order sp s)) (next_span s + 3) = Some c
           \<and> span_name c = ''db.update_order_status'' \<and> parent c = Some sp
           \<and> end_time c = Some e \<and> e \<le> clock (snd (create_order sp s)) \<and> end_calls c = 1"
proof -
  let ?s4 = "setAttribute sp ''order.amount'' (ANum (amount_of (rand_seq s (Suc (rand_pos s)))))
               (setAttribute sp ''order.id'' (AStr (orderId_of (rand_seq s (rand_pos s))))
                  (s\<lparr>rand_pos := rand_pos s + 2\<rparr>))"
  let ?s5 = "simulateDbQuery (Some sp) ''check_inventory'' default_durationRange ?s4"
  let ?s6 = "simulateDbQuery (Some sp) ''insert_order'' default_durationRange ?s5"
  let ?s7 = "snd (simulatePaymentProcessing (Some sp) (orderId_of (rand_seq s (rand_pos s)))
               (amount_of (rand_seq s (Suc (rand_pos s)))) ?s6)"
  let ?s8 = "simulateDbQuery (Some sp) ''update_order_status'' default_durationRange ?s7"
  have b: "clock ?s5 \<le> clock ?s6" by (rule simulateDbQuery_clock_mono)
  have c: "clock ?s6 \<le> clock ?s7" by (rule pay_clock_mono)
  have d: "clock ?s7 \<le> clock ?s8" by (rule simulateDbQuery_clock_mono)
  have f: "clock (snd (create_order sp s)) = (if declined s then clock ?s7 else clock ?s8)"
    by (simp add: create_order_unfold declined_fold Let_def io_defs)
  have sp': "sp \<noteq> next_span s" "sp \<noteq> Suc (next_span s)" "sp \<noteq> Suc (Suc (next_span s))"
    "sp \<noteq> Suc (Suc (Suc (next_span s)))"
    using sp by simp_all
  show "spans (snd (create_order sp s)) sp =
           Some (r\<lparr>attributes := (attributes r)
                     (''order.id'' \<mapsto> AStr (orderId_of (rand_seq s (rand_pos s))),
                      ''order.amount'' \<mapsto> ANum (amount_of (rand_seq s (Suc (rand_pos s))))),
                   end_time := (if declined s then None else Some (clock (snd (create_order sp s)))),
                   end_calls := (if declined s then end_calls r else Suc (end_calls r))\<rparr>)"
    using sp' r open_r
    by (simp add: f create_order_unfold declined_fold Let_def io_defs tracer_spans
          simulateDbQuery_spans pay_spans)
  show "\<exists>c e. spans (snd (create_order sp s)) (next_span s) = Some c
           \<and> span_name c = ''db.check_inventory'' \<and> parent c = Some sp
           \<and> end_time c = Some e \<and> e \<le> clock (snd (create_order sp s)) \<and> end_calls c = 1"
    using sp' b c d
    by (simp add: f create_order_unfold declined_fold Let_def io_defs tracer_spans
          simulateDbQuery_spans pay_spans)
  show "\<exists>c e. spans (snd (create_order sp s)) (next_span s + 1) = Some c
           \<and> span_name c = ''db.insert_order'' \<and> parent c = Some sp
           \<and> end_time c = Some e \<and> e \<le> clock (snd (create_order sp s)) \<and> end_calls c = 1"
    using sp' b c d
    by (simp add: f create_order_unfold declined_fold Let_def io_defs tracer_spans
          simulateDbQuery_spans pay_spans)
  show "\<exists>c e. spans (snd (create_order sp s)) (next_span s + 2) = Some c
           \<and> span_name c = ''payment.process'' \<and> parent c = Some sp
           \<and> status_code c = (if declined s then ERROR else UNSET)
           \<and> status_message c = (if declined s then ''Payment declined'' else [])
           \<and> end_time c = Some e \<and> e \<le> clock (snd (create_order sp s)) \<and> end_calls c = 1"
    using sp' b c d
    by (simp add: f create_order_unfold declined_fold Let_def io_defs tracer_spans
          simulateDbQuery_spans pay_spans)
  show "\<exists>c e. spans (snd (create_order sp s)) (next_span s + 3) = Some c
           \<and> span_name c = ''db.update_order_status'' \<and> parent c = Some sp
           \<and> end_time c = Some e \<and> e \<le> clock (snd (create_order sp s)) \<and> end_calls c = 1"
    if "\<not> declined s"
    using sp' b c d that
    by (simp add: f create_order_unfold declined_fold Let_def io_defs tracer_spans
          simulateDbQuery_spans pay_spans)
qed

lemma post_orders_fst:
  "fst (post_orders s) =
     (if declined s then \<lparr>res_status = 500, res_body = JsonError ''Payment declined''\<rparr>
      else \<lparr>res_status = 201,
             res_body = JsonValue (OrderObject
               \<lparr>order_id = orderId_of (rand_seq s (rand_pos s)),
                order_amount = amount_of (rand_seq s (Suc (rand_pos s))),
                order_status = ''confirmed''\<rparr>)\<rparr>)"
  by (simp add: post_orders_def Date_now_def startActiveSpan_def Let_def split_def
        create_order_fst io_defs declined_def)

lemma post_orders_effect:
  "ordersDb (snd (post_orders s)) =
     (if declined s then ordersDb s
      else set_property (ordersDb s) (orderId_of (rand_seq s (rand_pos s)))
             \<lparr>order_id = orderId_of (rand_seq s (rand_pos s)),
              order_amount = amount_of (rand_seq s (Suc (rand_pos s))),
              order_status = ''confirmed''\<rparr>)"
  "ordersCreated (snd (post_orders s)) =
     ordersCreated s @ [(1, if declined s then ''error'' else ''success'')]"
  "ordersInProgress (snd (post_orders s)) = ordersInProgress s @ [1, - 1]"
  "rand_seq (snd (post_orders s)) = rand_seq s"
  "rand_pos (snd (post_orders s)) = (if declined s then rand_pos s + 7 else rand_pos s + 8)"
  "next_span (snd (post_orders s)) = (if declined s then next_span s + 4 else next_span s + 5)"
  "wall_skew (snd (post_orders s)) = wall_skew s"
  "wall_pos (snd (post_orders s)) = wall_pos s + 2"
  by (simp_all add: post_orders_def Date_now_def startActiveSpan_def Let_def split_def
        create_order_fst create_order_effect io_defs declined_def)

lemma post_orders_clock:
  "clock (snd (post_orders s)) =
     clock (snd (create_order (next_span s)
       (s\<lparr>wall_pos := Suc (wall_pos s), ordersInProgress := ordersInProgress s @ [1],
          spans := (spans s)(next_span s \<mapsto> new_span ''create_order'' None (clock s)),
          next_span := Suc (next_span s)\<rparr>)))"
  by (simp add: post_orders_def Date_now_def startActiveSpan_def Let_def split_def
        create_order_fst io_defs)

lemma post_orders_clock_mono: "clock s \<le> clock (snd (post_orders s))"
  using create_order_clock_mono [of
      "s\<lparr>wall_pos := Suc (wall_pos s), ordersInProgress := ordersInProgress s @ [1],
          spans := (spans s)(next_span s \<mapsto> new_span ''create_order'' None (clock s)),
          next_span := Suc (next_span s)\<rparr>" "next_span s"]
  by (simp add: post_orders_clock)

lemma post_orders_histogram:
  "orderProcessingTime (snd (post_orders s)) =
     orderProcessingTime s @
       [of_int ((\<lfloor>clock (snd (post_orders s))\<rfloor> + wall_skew s (Suc (wall_pos s)))
                - (\<lfloor>clock s\<rfloor> + wall_skew s (wall_pos s))) / 1000]"
  by (simp add: post_orders_def Date_now_def startActiveSpan_def Let_def split_def
        create_order_fst io_defs)

lemma post_orders_spans:
  "spans (snd (post_orders s)) =
     spans (snd (create_order (next_span s)
       (s\<lparr>wall_pos := Suc (wall_pos s), ordersInProgress := ordersInProgress s @ [1],
          spans := (spans s)(next_span s \<mapsto> new_span ''create_order'' None (clock s)),
          next_span := Suc (next_span s)\<rparr>)))"
  by (simp add: post_orders_def Date_now_def startActiveSpan_def Let_def split_def
        create_order_fst io_defs)

lemma post_orders_root_span:
  "spans (snd (post_orders s)) (next_span s) =
     Some \<lparr> span_name = ''create_order'', parent = None,
            attributes = [''order.id'' \<mapsto> AStr (orderId_of (rand_seq s (rand_pos s))),
                          ''order.amount'' \<mapsto> ANum (amount_of (rand_seq s (Suc (rand_pos s))))],
            status_code = UNSET, status_message = [], start_time = clock s,
            end_time = (if declined s then None else Some (clock (snd (post_orders s)))),
            end_calls = (if declined s then 0 else 1) \<rparr>"
  using create_order_spans(1) [of "next_span s"
      "s\<lparr>wall_pos := Suc (wall_pos s), ordersInProgress := ordersInProgress s @ [1],
          spans := (spans s)(next_span s \<mapsto> new_span ''create_order'' None (clock s)),
          next_span := Suc (next_span s)\<rparr>" "new_span ''create_order'' None (clock s)"]
  by (simp add: post_orders_spans post_orders_clock new_span_def declined_def)

lemma post_orders_child_spans:
  "\<exists>c e. spans (snd (post_orders s)) (next_span s + 1) = Some c
      \<and> span_name c = ''db.check_inventory'' \<and> parent c = Some (next_span s)
      \<and> end_time c = Some e \<and> e \<le> clock (snd (post_orders s)) \<and> end_calls c = 1"
  "\<exists>c e. spans (snd (post_orders s)) (next_span s + 2) = Some c
      \<and> span_name c = ''db.insert_order'' \<and> parent c = Some (next_span s)
      \<and> end_time c = Some e \<and> e \<le> clock (snd (post_orders s)) \<and> end_calls c = 1"
  "\<exists>c e. spans (snd (post_orders s)) (next_span s + 3) = Some c
      \<and> span_name c = ''payment.process'' \<and> parent c = Some (next_span s)
      \<and> status_code c = (if declined s then ERROR else UNSET)
      \<and> status_message c = (if declined s then ''Payment declined'' else [])
      \<and> end_time c = Some e \<and> e \<le> clock (snd (post_orders s)) \<and> end_calls c = 1"
  "\<not> declined s \<Longrightarrow>
   \<exists>c e. spans (snd (post_orders s)) (next_span s + 4) = Some c
      \<and> span_name c = ''db.update_order_status'' \<and> parent c = Some (next_span s)
      \<and> end_time c = Some e \<and> e \<le> clock (snd (post_orders s)) \<and> end_calls c = 1"
proof -
  let ?r = "s\<lparr>wall_pos := Suc (wall_pos s), ordersInProgress := ordersInProgress s @ [1],
          spans := (spans s)(next_span s \<mapsto> new_span ''create_order'' None (clock s)),
          next_span := Suc (next_span s)\<rparr>"
  have pre: "next_span s < next_span ?r"
    "spans ?r (next_span s) = Some (new_span ''create_order'' None (clock s))"
    "end_time (new_span ''create_order'' None (clock s)) = None"
    by (simp_all add: new_span_def)
  have d: "declined ?r = declined s"
    by (simp add: declined_def)
  have n: "next_span s + 3 = Suc (Suc (Suc (next_span s)))"
    "next_span s + 4 = Suc (Suc (Suc (Suc (next_span s))))"
    "Suc (next_span s) + 3 = Suc (Suc (Suc (Suc (next_span s))))"
    by simp_all
  have sp: "spans (snd (post_orders s)) = spans (snd (create_order (next_span s) ?r))"
    by (rule post_orders_spans)
  have cl: "clock (snd (post_orders s)) = clock (snd (create_order (next_span s) ?r))"
    by (rule post_orders_clock)
  show "\<exists>c e. spans (snd (post_orders s)) (next_span s + 1) = Some c
      \<and> span_name c = ''db.check_inventory'' \<and> parent c = Some (next_span s)
      \<and> end_time c = Some e \<and> e \<le> clock (snd (post_orders s)) \<and> end_calls c = 1"
    using create_order_spans(2) [OF pre] by (simp add: sp cl n)
  show "\<exists>c e. spans (snd (post_orders s)) (next_span s + 2) = Some c
      \<and> span_name c = ''db.insert_order'' \<and> parent c = Some (next_span s)
      \<and> end_time c = Some e \<and> e \<le> clock (snd (post_orders s)) \<and> end_calls c = 1"
    using create_order_spans(3) [OF pre] by (simp add: sp cl n)
  show "\<exists>c e. spans (snd (post_orders s)) (next_span s + 3) = Some c
      \<and> span_name c = ''payment.process'' \<and> parent c = Some (next_span s)
      \<and> status_code c = (if declined s then ERROR else UNSET)
      \<and> status_message c = (if declined s then ''Payment declined'' else [])
      \<and> end_time c = Some e \<and> e \<le> clock (snd (post_orders s)) \<and> end_calls c = 1"
    using create_order_spans(4) [OF pre] by (simp add: sp cl d n)
  show "\<exists>c e. spans (snd (post_orders s)) (next_span s + 4) = Some c
      \<and> span_name c = ''db.update_order_status'' \<and> parent c = Some (next_span s)
      \<and> end_time c = Some e \<and> e \<le> clock (snd (post_orders s)) \<and> end_calls c = 1"
    if "\<not> declined s"
    using create_order_spans(5) [OF pre] that by (simp add: sp cl d n)
qed

lemma declined_initial_world [simp]:
  "declined (initial_world draws) = payment_declined (draws 6)"
  by (simp add: declined_def initial_world_def)

lemma initial_world_simps [simp]:
  "ordersDb (initial_world draws) = []"
  "ordersCreated (initial_world draws) = []"
  "orderProcessingTime (initial_world draws) = []"
  "ordersInProgress (initial_world draws) = []"
  "next_span (initial_world draws) = 0"
  "clock (initial_world draws) = 0"
  "rand_seq (initial_world draws) = draws"
  "rand_pos (initial_world draws) = 0"
  "wall_skew (initial_world draws) n = 0"
  "wall_pos (initial_world draws) = 0"
  by (simp_all add: initial_world_def)

lemma ended_I: "spans s i = Some c \<Longrightarrow> end_time c = Some e \<Longrightarrow> ended s i"
  by (simp add: ended_def)

lemma ends_within_I:
  "spans s i = Some c \<Longrightarrow> end_time c = Some a \<Longrightarrow> spans s j = Some p \<Longrightarrow>
   end_time p = Some b \<Longrightarrow> a \<le> b \<Longrightarrow> ends_within s i j"
  by (simp add: ends_within_def)

lemma map_upd_same_eq: "(m(k \<mapsto> a) = m(k \<mapsto> c)) = (a = c)"
  by (auto dest: map_upd_eqD1)

section \<open>Rounding to binary64\<close>

lemma binade_bounds:
  assumes "x \<noteq> 0"
  shows "2 powi binade x \<le> \<bar>x\<bar>" "\<bar>x\<bar> < 2 powi (binade x + 1)"
proof -
  obtain p q where pq: "quotient_of \<bar>x\<bar> = (p, q)" by (cases "quotient_of \<bar>x\<bar>") auto
  have q: "0 < q" using pq by (rule quotient_of_denom_pos)
  have x: "\<bar>x\<bar> = of_int p / of_int q" using pq by (rule quotient_of_div)
  have "0 < \<bar>x\<bar>" using assms by simp
  then have p: "0 < p" using q x by (simp add: zero_less_divide_iff)
  let ?d = "bitlen p - bitlen q"
  have bp: "(2::rat) powi (bitlen p - 1) \<le> of_int p" "(of_int p :: rat) < 2 powi bitlen p"
  proof -
    from bitlen_bounds [OF p] have a: "2 ^ nat (bitlen p - 1) \<le> p" "p < 2 ^ nat (bitlen p)" by auto
    have b1: "1 \<le> bitlen p" using p bitlen_eq_zero_iff [of p] bitlen_nonneg [of p] by linarith
    have "(2::rat) powi (bitlen p - 1) = 2 ^ nat (bitlen p - 1)"
      using b1 by (simp add: power_int_def)
    also have "\<dots> = of_int (2 ^ nat (bitlen p - 1))" by simp
    also have "\<dots> \<le> of_int p" using a(1) by (simp only: of_int_le_iff)
    finally show "(2::rat) powi (bitlen p - 1) \<le> of_int p" .
    have "(of_int p :: rat) < of_int (2 ^ nat (bitlen p))" using a(2) by (simp only: of_int_less_iff)
    also have "\<dots> = 2 powi bitlen p" using b1 by (simp add: power_int_def)
    finally show "(of_int p :: rat) < 2 powi bitlen p" .
  qed
  have bq: "(2::rat) powi (bitlen q - 1) \<le> of_int q" "(of_int q :: rat) < 2 powi bitlen q"
  proof -
    from bitlen_bounds [OF q] have a: "2 ^ nat (bitlen q - 1) \<le> q" "q < 2 ^ nat (bitlen q)" by auto
    have b1: "1 \<le> bitlen q" using q bitlen_eq_zero_iff [of q] bitlen_nonneg [of q] by linarith
    have "(2::rat) powi (bitlen q - 1) = 2 ^ nat (bitlen q - 1)"
      using b1 by (simp add: power_int_def)
    also have "\<dots> = of_int (2 ^ nat (bitlen q - 1))" by simp
    also have "\<dots> \<le> of_int q" using a(1) by (simp only: of_int_le_iff)
    finally show "(2::rat) powi (bitlen q - 1) \<le> of_int q" .
    have "(of_int q :: rat) < of_int (2 ^ nat (bitlen q))" using a(2) by (simp only: of_int_less_iff)
    also have "\<dots> = 2 powi bitlen q" using b1 by (simp add: power_int_def)
    finally show "(of_int q :: rat) < 2 powi bitlen q" .
  qed
  have qpos: "(0::rat) < of_int q" using q by simp
  have lo: "(2::rat) powi (?d - 1) < \<bar>x\<bar>"
  proof -
    have "(2::rat) powi (?d - 1) * of_int q < 2 powi (?d - 1) * 2 powi bitlen q"
      using bq(2) by (simp add: mult_strict_left_mono)
    also have "\<dots> = 2 powi (bitlen p - 1)" by (simp add: power_int_add [symmetric])
    also have "\<dots> \<le> of_int p" by (rule bp(1))
    finally show ?thesis using qpos by (simp add: x pos_less_divide_eq)
  qed
  have hi: "\<bar>x\<bar> < (2::rat) powi (?d + 1)"
  proof -
    have "(of_int p :: rat) < 2 powi bitlen p" by (rule bp(2))
    also have "\<dots> = 2 powi (?d + 1) * 2 powi (bitlen q - 1)" by (simp add: power_int_add [symmetric])
    also have "\<dots> \<le> 2 powi (?d + 1) * of_int q"
      using bq(1) by (simp add: mult_left_mono)
    finally show ?thesis using qpos by (simp add: x pos_divide_less_eq)
  qed
  have e: "binade x = (if 2 powi ?d \<le> \<bar>x\<bar> then ?d else ?d - 1)"
    by (simp add: binade_def pq Let_def)
  show "2 powi binade x \<le> \<bar>x\<bar>" using lo by (simp add: e)
  show "\<bar>x\<bar> < 2 powi (binade x + 1)" using hi by (auto simp: e not_le)
qed

lemma pow2_less_imp_less: "(2::rat) powi a < 2 powi b \<Longrightarrow> a < b"
proof (rule ccontr)
  assume l: "(2::rat) powi a < 2 powi b" and "\<not> a < b"
  then have "b \<le> a" by simp
  then have "(2::rat) powi b \<le> 2 powi a" by (rule power_int_increasing) simp
  with l show False by simp
qed

lemma pow2_le_abs_nonzero: "(2::rat) powi e \<le> \<bar>x\<bar> \<Longrightarrow> x \<noteq> 0"
proof
  assume "(2::rat) powi e \<le> \<bar>x\<bar>" and "x = 0"
  then have "(2::rat) powi e \<le> 0" by simp
  moreover have "(0::rat) < 2 powi e" by simp
  ultimately show False by linarith
qed

lemma binade_unique:
  assumes "2 powi e \<le> \<bar>x\<bar>" "\<bar>x\<bar> < 2 powi (e + 1)"
  shows "binade x = e"
proof -
  have x: "x \<noteq> 0" using assms(1) by (rule pow2_le_abs_nonzero)
  note b = binade_bounds [OF x]
  have "(2::rat) powi e < 2 powi (binade x + 1)" using assms(1) b(2) by simp
  then have 1: "e < binade x + 1" by (rule pow2_less_imp_less)
  have "(2::rat) powi binade x < 2 powi (e + 1)" using assms(2) b(1) by simp
  then have 2: "binade x < e + 1" by (rule pow2_less_imp_less)
  from 1 2 show ?thesis by simp
qed

lemma round_half_even_of_int [simp]: "round_half_even (of_int n) = n"
  by (simp add: round_half_even_def)

lemma round_half_even_le:
  assumes "t < of_int M + 1 / 2"
  shows "round_half_even t \<le> M"
proof -
  have f: "\<lfloor>t\<rfloor> \<le> M" using assms by (simp add: floor_le_iff)
  show ?thesis
  proof (cases "\<lfloor>t\<rfloor> = M")
    case True
    then have "t - of_int \<lfloor>t\<rfloor> < 1 / 2" using assms by simp
    then show ?thesis using True by (simp add: round_half_even_def)
  next
    case False
    then have "\<lfloor>t\<rfloor> + 1 \<le> M" using f by simp
    then show ?thesis using f by (auto simp: round_half_even_def Let_def)
  qed
qed

lemma round_half_even_nonneg:
  assumes "0 \<le> t"
  shows "0 \<le> round_half_even t"
proof -
  have "0 \<le> \<lfloor>t\<rfloor>" using assms by simp
  then show ?thesis by (auto simp: round_half_even_def Let_def)
qed

lemma binary64_exact:
  assumes x: "x = of_int m * 2 powi j" and m: "\<bar>m\<bar> < 2 ^ 53" and j: "- 1074 \<le> j"
  shows "binary64 x = x"
proof (cases "x = 0")
  case True
  then show ?thesis by (simp add: binary64_def)
next
  case False
  let ?k = "max (binade x) (- 1022) - 52"
  have "(2::rat) powi binade x \<le> \<bar>x\<bar>" using False by (rule binade_bounds)
  also have "\<bar>x\<bar> = of_int \<bar>m\<bar> * 2 powi j" by (simp add: x abs_mult)
  also have "\<dots> < of_int (2 ^ 53) * 2 powi j"
    using m by (intro mult_strict_right_mono) (simp_all only: of_int_less_iff zero_less_power_int zero_less_numeral)
  also have "\<dots> = 2 powi (53 + j)" by (simp add: power_int_add)
  finally have "binade x < 53 + j" by (rule pow2_less_imp_less)
  then have k: "?k \<le> j" using j by simp
  have "x / 2 powi ?k = of_int m * 2 powi (j - ?k)"
    by (simp add: x power_int_diff)
  also have "(2::rat) powi (j - ?k) = of_int (2 ^ nat (j - ?k))"
    using k by (simp add: power_int_def)
  finally have "x / 2 powi ?k = of_int (m * 2 ^ nat (j - ?k))" by simp
  then have "round_half_even (x / 2 powi ?k) = m * 2 ^ nat (j - ?k)"
    by (simp only: round_half_even_of_int)
  then have "binary64 x = of_int (m * 2 ^ nat (j - ?k)) * 2 powi ?k"
    using False by (simp add: binary64_def Let_def)
  also have "\<dots> = of_int m * (2 powi (j - ?k) * 2 powi ?k)"
    using k by (simp add: power_int_def)
  also have "\<dots> = x" by (simp add: x power_int_add [symmetric])
  finally show ?thesis .
qed

lemma binary64_of_int: "\<bar>m\<bar> < 2 ^ 53 \<Longrightarrow> binary64 (of_int m) = of_int m"
  using binary64_exact [of "of_int m" m 0] by simp

lemma binary64_half_int: "\<bar>m\<bar> < 2 ^ 53 \<Longrightarrow> binary64 (of_int m / 2) = of_int m / 2"
  using binary64_exact [of "of_int m / 2" m "- 1"] by (simp add: power_int_minus field_simps)

lemma binary64_nonneg:
  assumes "0 \<le> x"
  shows "0 \<le> binary64 x"
proof (cases "x = 0")
  case True
  then show ?thesis by (simp add: binary64_def)
next
  case False
  let ?q = "(2::rat) powi (max (binade x) (- 1022) - 52)"
  have q: "0 < ?q" by simp
  then have "0 \<le> x / ?q" using assms by simp
  then have "0 \<le> round_half_even (x / ?q)" by (rule round_half_even_nonneg)
  then have "(0::rat) \<le> of_int (round_half_even (x / ?q)) * ?q" using q by simp
  then show ?thesis using False by (simp add: binary64_def Let_def)
qed

lemma round_half_even_nearest:
  assumes "of_int n - 1 / 2 < t" "t < of_int n + 1 / 2"
  shows "round_half_even t = n"
proof (cases "of_int n \<le> t")
  case True
  then have f: "\<lfloor>t\<rfloor> = n" using assms(2) by (simp add: floor_unique)
  then show ?thesis using assms(2) by (simp add: round_half_even_def)
next
  case False
  then have f: "\<lfloor>t\<rfloor> = n - 1" using assms(1) by (simp add: floor_unique)
  then show ?thesis using assms(1) by (simp add: round_half_even_def)
qed

lemma binary64_eval:
  assumes "2 powi e \<le> \<bar>x\<bar>" "\<bar>x\<bar> < 2 powi (e + 1)" "- 1022 \<le> e"
    and "of_int n - 1 / 2 < x / 2 powi (e - 52)" "x / 2 powi (e - 52) < of_int n + 1 / 2"
  shows "binary64 x = of_int n * 2 powi (e - 52)"
proof -
  have e: "binade x = e" using assms(1,2) by (rule binade_unique)
  have x: "x \<noteq> 0" using assms(1) by (rule pow2_le_abs_nonzero)
  have "round_half_even (x / 2 powi (e - 52)) = n"
    using assms(4,5) by (rule round_half_even_nearest)
  then show ?thesis using x assms(3) by (simp add: binary64_def e Let_def max_def)
qed

lemma binary64_le_grid:
  assumes x: "0 < x"
    and y: "y = of_int M * 2 powi (max (binade x) (- 1022) - 52)"
    and lt: "x < y + 2 powi (max (binade x) (- 1022) - 52) / 2"
  shows "binary64 x \<le> y"
proof -
  let ?q = "(2::rat) powi (max (binade x) (- 1022) - 52)"
  have q: "0 < ?q" by simp
  have "x / ?q < (y + ?q / 2) / ?q" using lt q by (simp add: divide_strict_right_mono)
  also have "\<dots> = of_int M + 1 / 2" using q by (simp add: y field_simps)
  finally have "round_half_even (x / ?q) \<le> M" by (rule round_half_even_le)
  then have "(of_int (round_half_even (x / ?q)) :: rat) \<le> of_int M" by simp
  then have "of_int (round_half_even (x / ?q)) * ?q \<le> of_int M * ?q"
    using q by (simp add: mult_right_mono)
  then show ?thesis using x by (simp add: binary64_def Let_def y)
qed

lemma binary64_below_90000:
  assumes "0 \<le> x" "x \<le> 90000 - 90000 / 2 ^ 53"
  shows "binary64 x < 90000"
proof (cases "x = 0")
  case True
  then show ?thesis by (simp add: binary64_def)
next
  case False
  then have pos: "0 < x" using assms(1) by simp
  let ?k = "max (binade x) (- 1022) - 52"
  note b = binade_bounds [OF False]
  show ?thesis
  proof (cases "x < 65536")
    case True
    have "(2::rat) powi binade x \<le> x" using b(1) pos by simp
    also have "x < 2 powi 16" using True by simp
    finally have "binade x < 16" by (rule pow2_less_imp_less)
    then have k: "?k \<le> 16" by simp
    have "(65536::rat) = 2 powi (16 - ?k) * 2 powi ?k"
      by (simp add: power_int_add [symmetric])
    also have "(2::rat) powi (16 - ?k) = of_int (2 ^ nat (16 - ?k))"
      using k by (simp add: power_int_def)
    finally have y: "(65536::rat) = of_int (2 ^ nat (16 - ?k)) * 2 powi ?k" .
    have "(0::rat) < 2 powi ?k / 2" by simp
    then have "x < 65536 + 2 powi ?k / 2" using True by linarith
    with pos y have "binary64 x \<le> 65536" by (rule binary64_le_grid)
    then show ?thesis by simp
  next
    case False
    then have lo: "(2::rat) powi 16 \<le> \<bar>x\<bar>" using pos by simp
    have "x < 131072" using assms(2) by simp
    then have hi: "\<bar>x\<bar> < 2 powi (16 + 1)" using pos by simp
    have e: "binade x = 16" using lo hi by (rule binade_unique)
    have y: "(90000 - 2 powi (- 36) :: rat) = of_int (90000 * 2 ^ 36 - 1) * 2 powi ?k"
      by (simp add: e power_int_minus)
    have "x < 90000 - 2 powi (- 36) + 2 powi ?k / 2"
      using assms(2) by (simp add: e power_int_minus)
    with pos y have "binary64 x \<le> 90000 - 2 powi (- 36)" by (rule binary64_le_grid)
    moreover have "(0::rat) < 2 powi (- 36)" by simp
    ultimately show ?thesis by linarith
  qed
qed

lemma binary64_below_one:
  assumes "binary64 r = r" "0 \<le> r" "r < 1"
  shows "r \<le> 1 - 1 / 2 ^ 53"
proof (cases "r \<le> 1 / 2")
  case True
  then show ?thesis by simp
next
  case False
  then have lo: "(2::rat) powi (- 1) \<le> \<bar>r\<bar>" by (simp add: power_int_minus)
  have hi: "\<bar>r\<bar> < 2 powi (- 1 + 1)" using assms(2,3) by simp
  have e: "binade r = - 1" using lo hi by (rule binade_unique)
  have r0: "r \<noteq> 0" using False by auto
  define n where "n = round_half_even (r / 2 powi (- 53))"
  have r: "r = of_int n / 2 ^ 53"
    using assms(1) r0 by (simp add: binary64_def e Let_def n_def power_int_minus field_simps)
  have "(of_int n :: rat) < of_int (2 ^ 53)" using assms(3) by (simp add: r)
  then have "n < 2 ^ 53" by (simp only: of_int_less_iff)
  then have "n \<le> 2 ^ 53 - 1" by simp
  then have "(of_int n :: rat) \<le> of_int (2 ^ 53 - 1)" by (simp only: of_int_le_iff)
  then show ?thesis by (simp add: r field_simps)
qed

text \<open>The identifier and the amount at the draws one half and one quarter.\<close>

lemma orderId_of_half: "orderId_of (1 / 2) = ''55000''"
  using binary64_of_int [of 45000]
  by (simp add: orderId_of_def String_int_def Math_floor_def String_nat.simps digit_char_def)
lemma amount_of_half: "amount_of (1 / 2) = 255"
proof -
  have f: "\<lfloor>(51001::rat) / 2\<rfloor> = 25500" by linarith
  have a: "binary64 245 = 245" "binary64 255 = 255" "binary64 25500 = 25500"
    using binary64_of_int [of 245] binary64_of_int [of 255] binary64_of_int [of 25500]
    by simp_all
  show ?thesis by (simp add: amount_of_def Math_round_def a f)
qed

lemma orderId_of_quarter: "orderId_of (1 / 4) = ''32500''"
  using binary64_of_int [of 22500]
  by (simp add: orderId_of_def String_int_def Math_floor_def String_nat.simps digit_char_def)

lemma amount_of_quarter: "amount_of (1 / 4) = 265 / 2"
proof -
  have f: "\<lfloor>(26501::rat) / 2\<rfloor> = 13250" by linarith
  have a: "binary64 (245 / 2) = 245 / 2" "binary64 (265 / 2) = 265 / 2"
    "binary64 13250 = 13250"
    using binary64_half_int [of 245] binary64_half_int [of 265] binary64_of_int [of 13250]
    by simp_all
  show ?thesis by (simp add: amount_of_def Math_round_def a f)
qed

text \<open>
  Two draws at which the rounding decides the result: the exact product
  \<open>r * 90000\<close> lies just below 363 and rounds to 363, so the identifier is 10363; the
  exact \<open>(r * 490 + 10) * 100\<close> lies just below 1107.5 and rounds to 1107.5, so the amount
  is the binary64 value of 11.08.
\<close>

lemma binary64_rounds_up_to_363:
  "binary64 (18164518497061 / 2 ^ 52 * 90000) = 363"
proof -
  define x :: rat where "x = 18164518497061 / 2 ^ 52 * 90000"
  have 1: "2 powi 8 \<le> \<bar>x\<bar>" by (simp add: x_def)
  have 2: "\<bar>x\<bar> < 2 powi (8 + 1)" by (simp add: x_def)
  have 3: "of_int 6385963534123008 - 1 / 2 < x / 2 powi (8 - 52)"
    by (simp add: x_def power_int_minus)
  have 4: "x / 2 powi (8 - 52) < of_int 6385963534123008 + 1 / 2"
    by (simp add: x_def power_int_minus)
  have "binary64 x = of_int 6385963534123008 * 2 powi (8 - 52)"
    using 1 2 _ 3 4 by (rule binary64_eval) simp
  also have "\<dots> = 363" by (simp add: power_int_minus)
  finally show ?thesis unfolding x_def .
qed

lemma orderId_of_rounded_product: "orderId_of (18164518497061 / 2 ^ 52) = ''10363''"
proof -
  have "Math_floor (binary64 (18164518497061 / 2 ^ 52 * 90000)) + 10000 = 10363"
    by (simp only: binary64_rounds_up_to_363 Math_floor_def) simp
  then have "orderId_of (18164518497061 / 2 ^ 52) = String_int 10363"
    by (simp only: orderId_of_def)
  also have "\<dots> = ''10363''"
    by (simp add: String_int_def String_nat.simps digit_char_def)
  finally show ?thesis .
qed

lemma amount_of_rounded_product:
  "amount_of (9880346121272 / 2 ^ 52) = 6237485483908137 / 2 ^ 49"
proof -
  define a :: rat where "a = 9880346121272 / 2 ^ 52 * 490"
  have a: "binary64 a = a"
    by (rule binary64_exact [of a 4841369599423280 "- 52"])
       (simp_all add: a_def power_int_minus)
  define b :: rat where "b = a + 10"
  have b: "binary64 b = b"
    by (rule binary64_exact [of b 6234670734141030 "- 49"])
       (simp_all add: a_def b_def power_int_minus)
  define c :: rat where "c = b * 100"
  have c1: "2 powi 10 \<le> \<bar>c\<bar>" by (simp add: a_def b_def c_def)
  have c2: "\<bar>c\<bar> < 2 powi (10 + 1)" by (simp add: a_def b_def c_def)
  have c3: "of_int 4870836511047680 - 1 / 2 < c / 2 powi (10 - 52)"
    by (simp add: a_def b_def c_def power_int_minus)
  have c4: "c / 2 powi (10 - 52) < of_int 4870836511047680 + 1 / 2"
    by (simp add: a_def b_def c_def power_int_minus)
  have "binary64 c = of_int 4870836511047680 * 2 powi (10 - 52)"
    using c1 c2 _ c3 c4 by (rule binary64_eval) simp
  also have "\<dots> = 2215 / 2" by (simp add: power_int_minus)
  finally have c: "binary64 c = 2215 / 2" .
  have r: "Math_round (2215 / 2) = 1108" by (simp add: Math_round_def)
  define d :: rat where "d = 1108 / 100"
  have d1: "2 powi 3 \<le> \<bar>d\<bar>" by (simp add: d_def)
  have d2: "\<bar>d\<bar> < 2 powi (3 + 1)" by (simp add: d_def)
  have d3: "of_int 6237485483908137 - 1 / 2 < d / 2 powi (3 - 52)"
    by (simp add: d_def power_int_minus)
  have d4: "d / 2 powi (3 - 52) < of_int 6237485483908137 + 1 / 2"
    by (simp add: d_def power_int_minus)
  have "binary64 d = of_int 6237485483908137 * 2 powi (3 - 52)"
    using d1 d2 _ d3 d4 by (rule binary64_eval) simp
  also have "\<dots> = 6237485483908137 / 2 ^ 49" by (simp add: power_int_minus)
  finally have d: "binary64 d = 6237485483908137 / 2 ^ 49" .
  have "amount_of (9880346121272 / 2 ^ 52) =
      binary64 (of_int (Math_round (binary64 (binary64 (binary64 a + 10) * 100))) / 100)"
    by (simp only: amount_of_def a_def)
  also have "\<dots> = binary64 (of_int (Math_round (binary64 c)) / 100)"
    by (simp only: a b b_def [symmetric] c_def [symmetric])
  also have "\<dots> = binary64 d"
    by (simp only: c r d_def) simp
  finally show ?thesis by (simp only: d)
qed

section \<open>The in-flight gauge\<close>

text \<open>
  C1. Every run of the \<open>POST /orders\<close> handler, on the success path and on the path
  through the \<open>catch\<close> alike, adds \<open>+1\<close> to \<open>ordersInProgress\<close> at its entry and \<open>-1\<close> at
  its exit, and nothing else: the calls the gauge receives are the two, in this order,
  and the value of the gauge after the request is its value before.
\<close>

theorem C1_in_flight_gauge_net_zero:
  "ordersInProgress (snd (post_orders s)) = ordersInProgress s @ [1, - 1]
   \<and> in_flight (snd (post_orders s)) = in_flight s"
  by (simp add: post_orders_effect in_flight_def)

text \<open>C1 on a request whose payment is declined and on a request that succeeds.\<close>

theorem C1_in_flight_gauge_net_zero_witness:
  "ordersInProgress (snd (post_orders (initial_world draws_declined))) = [1, - 1]
   \<and> in_flight (snd (post_orders (initial_world draws_declined))) = 0
   \<and> ordersInProgress (snd (post_orders (initial_world draws_half))) = [1, - 1]
   \<and> in_flight (snd (post_orders (initial_world draws_half))) = 0"
  using C1_in_flight_gauge_net_zero [of "initial_world draws_declined"]
    C1_in_flight_gauge_net_zero [of "initial_world draws_half"]
  by (simp add: in_flight_def)

section \<open>The spans of a request\<close>

text \<open>
  On the success path the root span and its four children all have their end
  timestamps, every child is a child of the root, and none ends after the root.
\<close>

lemma post_orders_success_spans_ended:
  assumes "\<not> declined s"
  shows "ended (snd (post_orders s)) (next_span s)"
    and "ended (snd (post_orders s)) (next_span s + 1)
         \<and> ends_within (snd (post_orders s)) (next_span s + 1) (next_span s)"
    and "ended (snd (post_orders s)) (next_span s + 2)
         \<and> ends_within (snd (post_orders s)) (next_span s + 2) (next_span s)"
    and "ended (snd (post_orders s)) (next_span s + 3)
         \<and> ends_within (snd (post_orders s)) (next_span s + 3) (next_span s)"
    and "ended (snd (post_orders s)) (next_span s + 4)
         \<and> ends_within (snd (post_orders s)) (next_span s + 4) (next_span s)"
    and "next_span (snd (post_orders s)) = next_span s + 5"
proof -
  let ?t = "snd (post_orders s)"
  obtain p where p: "spans ?t (next_span s) = Some p" "end_time p = Some (clock ?t)"
    using assms by (simp add: post_orders_root_span)
  show "ended ?t (next_span s)" using p by (rule ended_I)
  show "ended ?t (next_span s + 1) \<and> ends_within ?t (next_span s + 1) (next_span s)"
    using post_orders_child_spans(1) [of s] p by (blast intro: ended_I ends_within_I)
  show "ended ?t (next_span s + 2) \<and> ends_within ?t (next_span s + 2) (next_span s)"
    using post_orders_child_spans(2) [of s] p by (blast intro: ended_I ends_within_I)
  show "ended ?t (next_span s + 3) \<and> ends_within ?t (next_span s + 3) (next_span s)"
    using post_orders_child_spans(3) [of s] p by (blast intro: ended_I ends_within_I)
  show "ended ?t (next_span s + 4) \<and> ends_within ?t (next_span s + 4) (next_span s)"
    using post_orders_child_spans(4) [OF assms] p by (blast intro: ended_I ends_within_I)
  show "next_span ?t = next_span s + 5" using assms by (simp add: post_orders_effect)
qed

text \<open>
  On the failure path the rejection leaves the callback of \<open>create_order\<close> before its
  \<open>span.end()\<close>, and the \<open>catch\<close> has no hold on the span: the three children that were
  started have ended, the root span has not, and never will.
\<close>

lemma post_orders_declined_root_span_open:
  "declined s \<Longrightarrow> \<not> ended (snd (post_orders s)) (next_span s)"
  by (simp add: ended_def post_orders_root_span)

lemma post_orders_declined_spans:
  assumes "declined s"
  shows "ended (snd (post_orders s)) (next_span s + 1)"
    and "ended (snd (post_orders s)) (next_span s + 2)"
    and "ended (snd (post_orders s)) (next_span s + 3)"
    and "next_span (snd (post_orders s)) = next_span s + 4"
proof -
  let ?t = "snd (post_orders s)"
  show "ended ?t (next_span s + 1)"
    using post_orders_child_spans(1) [of s] by (blast intro: ended_I)
  show "ended ?t (next_span s + 2)"
    using post_orders_child_spans(2) [of s] by (blast intro: ended_I)
  show "ended ?t (next_span s + 3)"
    using post_orders_child_spans(3) [of s] by (blast intro: ended_I)
  show "next_span ?t = next_span s + 4" using assms by (simp add: post_orders_effect)
qed

text \<open>
  C2. The claim: after every \<open>POST /orders\<close> request, on the success path and on the
  failure path alike, every span of the request has its end timestamp. The code at the
  first request of a process whose payment is declined: the response is the 500 of the
  \<open>catch\<close>, and the root span \<open>create_order\<close> (handle 0) has no end timestamp;
  \<open>span.end()\<close> was called on it zero times.
\<close>

theorem C2_root_span_never_ended_after_declined_payment:
  "declined (initial_world draws_declined)
   \<and> res_status (fst (post_orders (initial_world draws_declined))) = 500
   \<and> map_option span_name (spans (snd (post_orders (initial_world draws_declined))) 0)
       = Some ''create_order''
   \<and> map_option end_time (spans (snd (post_orders (initial_world draws_declined))) 0)
       = Some None
   \<and> map_option end_calls (spans (snd (post_orders (initial_world draws_declined))) 0)
       = Some 0
   \<and> \<not> ended (snd (post_orders (initial_world draws_declined))) 0"
  using post_orders_root_span [of "initial_world draws_declined"]
  by (simp add: post_orders_fst ended_def draws_declined_def payment_declined_def)

section \<open>A declined payment\<close>

text \<open>
  C3, as amended. When the failure draw of the payment fires, the request stores no
  order (the store is what it was), adds to \<open>ordersCreated\<close> once, with the label
  \<open>error\<close>, answers 500 with the message of the error, and the status \<open>ERROR\<close> with the
  message \<open>Payment declined\<close> is on the span \<open>payment.process\<close>, a child of the root span.
\<close>

theorem C3_declined_payment:
  assumes "declined s"
  shows "ordersDb (snd (post_orders s)) = ordersDb s
    \<and> ordersCreated (snd (post_orders s)) = ordersCreated s @ [(1, ''error'')]
    \<and> fst (post_orders s) = \<lparr>res_status = 500, res_body = JsonError ''Payment declined''\<rparr>
    \<and> (\<exists>c. spans (snd (post_orders s)) (next_span s + 3) = Some c
          \<and> span_name c = ''payment.process'' \<and> parent c = Some (next_span s)
          \<and> status_code c = ERROR \<and> status_message c = ''Payment declined'')"
proof -
  obtain c where "spans (snd (post_orders s)) (next_span s + 3) = Some c"
    "span_name c = ''payment.process''" "parent c = Some (next_span s)"
    "status_code c = ERROR" "status_message c = ''Payment declined''"
    using post_orders_child_spans(3) [of s] assms by auto
  then show ?thesis using assms by (simp add: post_orders_effect post_orders_fst)
qed

text \<open>C3 at the first request of a process, with the seventh draw at 0.01.\<close>

theorem C3_declined_payment_witness:
  "declined (initial_world draws_declined)
    \<and> ordersDb (snd (post_orders (initial_world draws_declined))) = []
    \<and> ordersCreated (snd (post_orders (initial_world draws_declined))) = [(1, ''error'')]
    \<and> fst (post_orders (initial_world draws_declined))
        = \<lparr>res_status = 500, res_body = JsonError ''Payment declined''\<rparr>
    \<and> map_option status_code (spans (snd (post_orders (initial_world draws_declined))) 3)
        = Some ERROR"
proof -
  have d: "declined (initial_world draws_declined)"
    by (simp add: draws_declined_def payment_declined_def)
  from C3_declined_payment [OF d] d show ?thesis by auto
qed

text \<open>
  C3 as the claim states it asks for the status \<open>ERROR\<close> on the root span. The handler
  sets no status on the root span: at the same request the span \<open>create_order\<close> keeps
  the status \<open>UNSET\<close>.
\<close>

theorem C3_root_span_status_counterexample:
  "declined (initial_world draws_declined)
   \<and> map_option span_name (spans (snd (post_orders (initial_world draws_declined))) 0)
       = Some ''create_order''
   \<and> map_option status_code (spans (snd (post_orders (initial_world draws_declined))) 0)
       = Some UNSET
   \<and> map_option status_code (spans (snd (post_orders (initial_world draws_declined))) 0)
       \<noteq> Some ERROR"
  using post_orders_root_span [of "initial_world draws_declined"]
  by (simp add: draws_declined_def payment_declined_def)

section \<open>The processing-time histogram\<close>

lemma seconds_nonneg_iff: "((0::rat) \<le> of_int (b - a) / 1000) = (a \<le> b)"
proof -
  have "((0::rat) \<le> of_int (b - a) / 1000) = ((0::rat) \<le> of_int (b - a))"
    by (simp add: zero_le_divide_iff)
  also have "\<dots> = (0 \<le> b - a)" by (simp only: of_int_0_le_iff)
  also have "\<dots> = (a \<le> b)" by auto
  finally show ?thesis .
qed

lemma post_orders_clock_value:
  "clock (snd (post_orders s)) =
     clock s
     + timer_wait (rand_seq s (rand_pos s + 2) * 40 + 10)
     + timer_wait (rand_seq s (rand_pos s + 3) * 40 + 10)
     + timer_wait (payment_delay (payment_isSlow (rand_seq s (rand_pos s + 4)))
         (rand_seq s (rand_pos s + 5)))
     + (if declined s then 0 else timer_wait (rand_seq s (rand_pos s + 7) * 40 + 10))"
  by (simp add: post_orders_clock create_order_unfold Let_def simulateDbQuery_clock pay_clock
        default_durationRange_def declined_fold io_defs eval_nat_numeral)

lemma post_orders_clock_half:
  "rand_seq s = draws_half \<Longrightarrow> clock (snd (post_orders s)) = clock s + 215"
  by (simp add: post_orders_clock_value draws_half_def timer_wait_def payment_isSlow_def
        payment_delay_def declined_def payment_declined_def)

text \<open>
  C4, as amended. Every \<open>POST /orders\<close> request records one value into
  \<open>orderProcessingTime\<close>, whether it succeeds or fails: the second reading of
  \<open>Date.now()\<close> (in the \<open>finally\<close>) minus the first (at the entry), in seconds. The value
  is non-negative exactly when the second reading is not below the first; it is so
  whenever the wall clock has not lost time against the timers between the two
  readings.
\<close>

theorem C4_processing_time_recorded_once:
  "orderProcessingTime (snd (post_orders s)) =
     orderProcessingTime s @
       [of_int ((\<lfloor>clock (snd (post_orders s))\<rfloor> + wall_skew s (Suc (wall_pos s)))
                - (\<lfloor>clock s\<rfloor> + wall_skew s (wall_pos s))) / 1000]
   \<and> ((0::rat) \<le> of_int ((\<lfloor>clock (snd (post_orders s))\<rfloor> + wall_skew s (Suc (wall_pos s)))
                - (\<lfloor>clock s\<rfloor> + wall_skew s (wall_pos s))) / 1000)
       = (\<lfloor>clock s\<rfloor> + wall_skew s (wall_pos s)
            \<le> \<lfloor>clock (snd (post_orders s))\<rfloor> + wall_skew s (Suc (wall_pos s)))
   \<and> (wall_skew s (wall_pos s) \<le> wall_skew s (Suc (wall_pos s)) \<longrightarrow>
        (0::rat) \<le> of_int ((\<lfloor>clock (snd (post_orders s))\<rfloor> + wall_skew s (Suc (wall_pos s)))
                - (\<lfloor>clock s\<rfloor> + wall_skew s (wall_pos s))) / 1000)"
proof -
  let ?t0 = "\<lfloor>clock s\<rfloor> + wall_skew s (wall_pos s)"
  let ?t1 = "\<lfloor>clock (snd (post_orders s))\<rfloor> + wall_skew s (Suc (wall_pos s))"
  have once: "orderProcessingTime (snd (post_orders s)) =
      orderProcessingTime s @ [of_int (?t1 - ?t0) / 1000]"
    by (rule post_orders_histogram)
  have sign: "((0::rat) \<le> of_int (?t1 - ?t0) / 1000) = (?t0 \<le> ?t1)"
    by (rule seconds_nonneg_iff)
  have "\<lfloor>clock s\<rfloor> \<le> \<lfloor>clock (snd (post_orders s))\<rfloor>"
    by (rule floor_mono) (rule post_orders_clock_mono)
  then have "wall_skew s (wall_pos s) \<le> wall_skew s (Suc (wall_pos s)) \<longrightarrow> ?t0 \<le> ?t1"
    by simp
  with once sign show ?thesis by blast
qed

text \<open>
  C4 at the first request of a process whose wall clock is in step with the timers
  and in which every draw is one half: the timers wait 30, 30, 125 and 30 milliseconds.
\<close>

theorem C4_processing_time_recorded_once_witness:
  "wall_skew (initial_world draws_half) (wall_pos (initial_world draws_half))
     \<le> wall_skew (initial_world draws_half) (Suc (wall_pos (initial_world draws_half)))
   \<and> orderProcessingTime (snd (post_orders (initial_world draws_half))) = [43 / 200]
   \<and> (0::rat) \<le> 43 / 200"
proof -
  have c: "clock (snd (post_orders (initial_world draws_half))) = 215"
    using post_orders_clock_half [of "initial_world draws_half"] by simp
  from C4_processing_time_recorded_once [of "initial_world draws_half"]
  show ?thesis by (simp add: c)
qed

text \<open>
  C4 as the claim states it says that the value is never negative. The two readings
  are of the wall clock: when the system clock is set back by one second during a
  request whose timers wait 215 milliseconds, the value recorded is -0.785.
\<close>

theorem C4_clock_set_back_counterexample:
  "orderProcessingTime (snd (post_orders clock_set_back)) = [- 157 / 200]
   \<and> (- 157 / 200 :: rat) < 0"
proof -
  have c: "clock (snd (post_orders clock_set_back)) = 215"
    using post_orders_clock_half [of clock_set_back] by (simp add: clock_set_back_def)
  have "orderProcessingTime (snd (post_orders clock_set_back)) =
     orderProcessingTime clock_set_back @
       [of_int ((\<lfloor>clock (snd (post_orders clock_set_back))\<rfloor>
                  + wall_skew clock_set_back (Suc (wall_pos clock_set_back)))
                - (\<lfloor>clock clock_set_back\<rfloor>
                  + wall_skew clock_set_back (wall_pos clock_set_back))) / 1000]"
    by (rule post_orders_histogram)
  then show ?thesis by (simp add: c) (simp add: clock_set_back_def)
qed

section \<open>A confirmed order\<close>

text \<open>
  C7. When the failure draw of the payment does not fire (the three database steps
  cannot fail), the request stores under the generated identifier an order with the
  status \<open>confirmed\<close>, adds to \<open>ordersCreated\<close> once, with the label \<open>success\<close>, and with
  no other label, and answers 201 with the order it reads back from the store.
\<close>

theorem C7_confirmed_order:
  assumes "\<not> declined s"
  shows "fst (post_orders s) =
           \<lparr>res_status = 201,
            res_body = JsonValue (get_property (ordersDb (snd (post_orders s)))
                         (orderId_of (rand_seq s (rand_pos s))))\<rparr>
    \<and> get_property (ordersDb (snd (post_orders s))) (orderId_of (rand_seq s (rand_pos s))) =
        OrderObject \<lparr>order_id = orderId_of (rand_seq s (rand_pos s)),
              order_amount = amount_of (rand_seq s (Suc (rand_pos s))),
              order_status = ''confirmed''\<rparr>
    \<and> own_property (ordersDb (snd (post_orders s))) (orderId_of (rand_seq s (rand_pos s))) =
        Some \<lparr>order_id = orderId_of (rand_seq s (rand_pos s)),
              order_amount = amount_of (rand_seq s (Suc (rand_pos s))),
              order_status = ''confirmed''\<rparr>
    \<and> ordersCreated (snd (post_orders s)) = ordersCreated s @ [(1, ''success'')]"
  using assms
  by (simp add: post_orders_effect post_orders_fst get_property_set_property own_property_def
        map_of_set_property)

text \<open>C7 at the first request of a process in which every draw is one half.\<close>

theorem C7_confirmed_order_witness:
  "\<not> declined (initial_world draws_half)
   \<and> fst (post_orders (initial_world draws_half)) =
       \<lparr>res_status = 201,
        res_body = JsonValue (OrderObject
          \<lparr>order_id = ''55000'', order_amount = 255, order_status = ''confirmed''\<rparr>)\<rparr>
   \<and> own_property (ordersDb (snd (post_orders (initial_world draws_half)))) ''55000'' =
       Some \<lparr>order_id = ''55000'', order_amount = 255, order_status = ''confirmed''\<rparr>
   \<and> ordersCreated (snd (post_orders (initial_world draws_half))) = [(1, ''success'')]"
proof -
  have d: "\<not> declined (initial_world draws_half)"
    by (simp add: draws_half_def payment_declined_def)
  from C7_confirmed_order [OF d] d show ?thesis
    by (simp add: draws_half_def orderId_of_half amount_of_half)
qed

section \<open>The payment call\<close>

text \<open>
  C5. Every call of \<open>simulatePaymentProcessing\<close> creates one span, \<open>payment.process\<close>,
  under the active span, and touches no other. The span starts when the call starts and
  \<open>end()\<close> is called on it once, when the timer of the delay fires: its end timestamp is
  its start plus the wait of the timer. When the failure draw (the third draw of the
  call) is below 0.05 the span has the status \<open>ERROR\<close> with the message
  \<open>Payment declined\<close> and the promise rejects with the error of that message; otherwise
  the status stays \<open>UNSET\<close> and the promise resolves.
\<close>

theorem C5_payment_span_ended_once:
  "\<exists>c. spans (snd (simulatePaymentProcessing ctx orderId amt s)) = (spans s)(next_span s \<mapsto> c)
     \<and> span_name c = ''payment.process'' \<and> parent c = ctx
     \<and> start_time c = clock s
     \<and> end_time c = Some (clock s + timer_wait
          (payment_delay (payment_isSlow (rand_seq s (rand_pos s))) (rand_seq s (rand_pos s + 1))))
     \<and> end_time c = Some (clock (snd (simulatePaymentProcessing ctx orderId amt s)))
     \<and> end_calls c = 1
     \<and> (if rand_seq s (rand_pos s + 2) < 5 / 100
         then status_code c = ERROR \<and> status_message c = ''Payment declined''
              \<and> fst (simulatePaymentProcessing ctx orderId amt s) = Inl (Error ''Payment declined'')
         else status_code c = UNSET
              \<and> fst (simulatePaymentProcessing ctx orderId amt s) = Inr ())"
  by (simp add: pay_spans pay_fst pay_clock payment_declined_def map_upd_same_eq)

lemma payment_delay_ranges:
  assumes "0 \<le> u" "u < 1"
  shows "1000 \<le> payment_delay True u" "payment_delay True u < 3000"
    "50 \<le> payment_delay False u" "payment_delay False u < 200"
    "timer_wait (payment_delay b u) = payment_delay b u"
  using assms by (simp_all add: payment_delay_def timer_wait_def)







section \<open>Reading the store\<close>

lemma get_order_effect:
  "ordersDb (snd (get_order k s)) = ordersDb s"
  "fst (get_order k s) =
     (if truthy (get_property (ordersDb s) k)
      then \<lparr>res_status = 200, res_body = JsonValue (get_property (ordersDb s) k)\<rparr>
      else \<lparr>res_status = 404, res_body = JsonError ''Order not found''\<rparr>)"
  by (simp_all add: get_order_def startActiveSpan_def Let_def)

lemma get_orders_effect:
  "ordersDb (snd (get_orders s)) = ordersDb s"
  "fst (get_orders s) = \<lparr>res_status = 200, res_body = JsonList (Object_values (ordersDb s))\<rparr>"
  by (simp_all add: get_orders_def startActiveSpan_def Let_def)

lemma set_Object_values: "set (Object_values db) = snd ` set db"
proof -
  have "set (Object_values db) =
          snd ` ({x \<in> set db. array_index (fst x) \<noteq> None} \<union> {x \<in> set db. array_index (fst x) = None})"
    by (simp add: Object_values_def image_Un split_def)
  also have "{x \<in> set db. array_index (fst x) \<noteq> None} \<union> {x \<in> set db. array_index (fst x) = None} = set db"
    by auto
  finally show ?thesis .
qed

lemma own_property_eq: "own_property db = map_of db"
  by (rule ext) (simp add: own_property_def)

lemma Object_values_all:
  "distinct (map fst db) \<Longrightarrow> set (Object_values db) = ran (own_property db)"
  by (simp add: set_Object_values own_property_eq ran_distinct)

lemma get_order_not_found:
  assumes "own_property (ordersDb s) k = None" "k \<noteq> ''__proto__''"
    "k \<notin> set Object_prototype_keys"
  shows "fst (get_order k s) = \<lparr>res_status = 404, res_body = JsonError ''Order not found''\<rparr>"
  using assms by (simp add: get_order_effect get_property_def)

lemma get_order_found:
  assumes "own_property (ordersDb s) k = Some v"
  shows "fst (get_order k s) = \<lparr>res_status = 200, res_body = JsonValue (OrderObject v)\<rparr>"
  using assms by (simp add: get_order_effect get_property_def)

text \<open>
  C8. The claim: a \<open>GET /orders/:orderId\<close> for an identifier that is not in the store
  answers 404. The code reads \<open>ordersDb[req.params.orderId]\<close> on a plain object and
  tests the value for truthiness, so a name that \<open>Object.prototype\<close> defines is found
  though no order was stored under it: on the empty store of a fresh process,
  \<open>GET /orders/constructor\<close> answers 200. (The store is left as it was, and the lemmas
  above give the 404 for every other missing identifier and the list of \<open>GET /orders\<close>.)
\<close>

theorem C8_inherited_property_is_found:
  "own_property (ordersDb (initial_world draws_half)) ''constructor'' = None
   \<and> fst (get_order ''constructor'' (initial_world draws_half)) =
       \<lparr>res_status = 200, res_body = JsonValue (BuiltinFunction ''constructor'')\<rparr>
   \<and> res_status (fst (get_order ''constructor'' (initial_world draws_half))) \<noteq> 404
   \<and> ordersDb (snd (get_order ''constructor'' (initial_world draws_half))) = []"
  by (simp add: get_order_effect get_property_def own_property_def Object_prototype_keys_def)

section \<open>The lifetime of a stored order\<close>

lemma own_property_post_orders:
  "own_property (ordersDb (snd (post_orders s))) =
     (if declined s then own_property (ordersDb s)
      else (own_property (ordersDb s))
             (orderId_of (rand_seq s (rand_pos s)) \<mapsto>
                \<lparr>order_id = orderId_of (rand_seq s (rand_pos s)),
                 order_amount = amount_of (rand_seq s (Suc (rand_pos s))),
                 order_status = ''confirmed''\<rparr>))"
  by (auto simp: post_orders_effect own_property_def map_of_set_property)

lemma handle_keeps_keys:
  "own_property (ordersDb s) k \<noteq> None \<Longrightarrow> own_property (ordersDb (snd (handle r s))) k \<noteq> None"
  by (cases r)
     (simp_all add: own_property_post_orders get_orders_effect get_order_effect get_health_def)

lemma serve_keeps_keys:
  "own_property (ordersDb s) k \<noteq> None \<Longrightarrow> own_property (ordersDb (serve rs s)) k \<noteq> None"
proof (induction rs arbitrary: s)
  case Nil
  then show ?case by simp
next
  case (Cons r rs)
  from Cons.prems have "own_property (ordersDb (snd (handle r s))) k \<noteq> None"
    by (rule handle_keeps_keys)
  then show ?case by (simp add: Cons.IH)
qed

text \<open>
  C9, as amended. \<open>POST /orders\<close> writes to the store only when the payment is not
  declined, and then after all four steps (their spans have ended); the write is one
  assignment, to the generated identifier, so every entry under another identifier is
  left as it was; the three \<open>GET\<close> handlers leave the store as it was; and no run of
  requests removes the entry of an identifier that has one.
\<close>

theorem C9_store_entries:
  "(declined s \<longrightarrow> ordersDb (snd (post_orders s)) = ordersDb s)
   \<and> (\<not> declined s \<longrightarrow>
        ordersDb (snd (post_orders s)) =
          set_property (ordersDb s) (orderId_of (rand_seq s (rand_pos s)))
            \<lparr>order_id = orderId_of (rand_seq s (rand_pos s)),
             order_amount = amount_of (rand_seq s (Suc (rand_pos s))),
             order_status = ''confirmed''\<rparr>
        \<and> ended (snd (post_orders s)) (next_span s + 1)
        \<and> ended (snd (post_orders s)) (next_span s + 2)
        \<and> ended (snd (post_orders s)) (next_span s + 3)
        \<and> ended (snd (post_orders s)) (next_span s + 4))
   \<and> (k \<noteq> orderId_of (rand_seq s (rand_pos s)) \<longrightarrow>
        own_property (ordersDb (snd (post_orders s))) k = own_property (ordersDb s) k)
   \<and> ordersDb (snd (get_orders s)) = ordersDb s
   \<and> ordersDb (snd (get_order k s)) = ordersDb s
   \<and> ordersDb (snd (get_health s)) = ordersDb s
   \<and> (own_property (ordersDb s) k \<noteq> None \<longrightarrow> own_property (ordersDb (serve rs s)) k \<noteq> None)"
proof -
  have a: "declined s \<longrightarrow> ordersDb (snd (post_orders s)) = ordersDb s"
    by (simp add: post_orders_effect)
  have b: "\<not> declined s \<longrightarrow>
        ordersDb (snd (post_orders s)) =
          set_property (ordersDb s) (orderId_of (rand_seq s (rand_pos s)))
            \<lparr>order_id = orderId_of (rand_seq s (rand_pos s)),
             order_amount = amount_of (rand_seq s (Suc (rand_pos s))),
             order_status = ''confirmed''\<rparr>
        \<and> ended (snd (post_orders s)) (next_span s + 1)
        \<and> ended (snd (post_orders s)) (next_span s + 2)
        \<and> ended (snd (post_orders s)) (next_span s + 3)
        \<and> ended (snd (post_orders s)) (next_span s + 4)"
    using post_orders_success_spans_ended(2-5) [of s] by (simp add: post_orders_effect)
  have c: "k \<noteq> orderId_of (rand_seq s (rand_pos s)) \<longrightarrow>
        own_property (ordersDb (snd (post_orders s))) k = own_property (ordersDb s) k"
    by (simp add: own_property_post_orders)
  have d: "ordersDb (snd (get_orders s)) = ordersDb s"
    "ordersDb (snd (get_order k s)) = ordersDb s"
    "ordersDb (snd (get_health s)) = ordersDb s"
    by (simp_all add: get_orders_effect get_order_effect get_health_def)
  have e: "own_property (ordersDb s) k \<noteq> None \<longrightarrow>
        own_property (ordersDb (serve rs s)) k \<noteq> None"
    using serve_keeps_keys [of s k rs] by blast
  from a b c d e show ?thesis by blast
qed

lemma first_post_collision:
  "ordersDb (snd (post_orders (initial_world draws_collision))) =
     [(''55000'', \<lparr>order_id = ''55000'', order_amount = 255, order_status = ''confirmed''\<rparr>)]"
  "rand_pos (snd (post_orders (initial_world draws_collision))) = 8"
  "rand_seq (snd (post_orders (initial_world draws_collision))) = draws_collision"
  by (simp_all add: post_orders_effect draws_collision_def payment_declined_def
        orderId_of_half amount_of_half)

lemma first_post_distinct:
  "ordersDb (snd (post_orders (initial_world draws_distinct))) =
     [(''55000'', \<lparr>order_id = ''55000'', order_amount = 255, order_status = ''confirmed''\<rparr>)]"
  "rand_pos (snd (post_orders (initial_world draws_distinct))) = 8"
  "rand_seq (snd (post_orders (initial_world draws_distinct))) = draws_distinct"
  by (simp_all add: post_orders_effect draws_distinct_def payment_declined_def
        orderId_of_half amount_of_half)

lemma first_post_half:
  "ordersDb (snd (post_orders (initial_world draws_half))) =
     [(''55000'', \<lparr>order_id = ''55000'', order_amount = 255, order_status = ''confirmed''\<rparr>)]"
  "rand_pos (snd (post_orders (initial_world draws_half))) = 8"
  "rand_seq (snd (post_orders (initial_world draws_half))) = draws_half"
  by (simp_all add: post_orders_effect draws_half_def payment_declined_def
        orderId_of_half amount_of_half)

text \<open>
  C9 after a first order 55000: a second request that draws the identifier 32500 leaves
  the entry of 55000 as it was, and further requests keep it; a declined request leaves
  the empty store empty.
\<close>

theorem C9_store_entries_witness:
  "\<not> declined (snd (post_orders (initial_world draws_distinct)))
   \<and> ordersDb (snd (post_orders (snd (post_orders (initial_world draws_distinct))))) =
       [(''55000'', \<lparr>order_id = ''55000'', order_amount = 255, order_status = ''confirmed''\<rparr>),
        (''32500'', \<lparr>order_id = ''32500'', order_amount = 255, order_status = ''confirmed''\<rparr>)]
   \<and> own_property (ordersDb (snd (post_orders (snd (post_orders (initial_world draws_distinct))))))
         ''55000''
       = Some \<lparr>order_id = ''55000'', order_amount = 255, order_status = ''confirmed''\<rparr>
   \<and> own_property
         (ordersDb (serve [PostOrders, GetOrders] (snd (post_orders (initial_world draws_distinct)))))
         ''55000'' \<noteq> None
   \<and> declined (initial_world draws_declined)
   \<and> ordersDb (snd (post_orders (initial_world draws_declined))) = []"
proof -
  let ?w = "snd (post_orders (initial_world draws_distinct))"
  let ?o1 = "\<lparr>order_id = ''55000'', order_amount = 255, order_status = ''confirmed''\<rparr>"
  let ?o2 = "\<lparr>order_id = ''32500'', order_amount = 255, order_status = ''confirmed''\<rparr>"
  have nd: "\<not> declined ?w"
    by (simp add: declined_def first_post_distinct draws_distinct_def payment_declined_def)
  have oid: "orderId_of (rand_seq ?w (rand_pos ?w)) = ''32500''"
    "amount_of (rand_seq ?w (Suc (rand_pos ?w))) = 255"
    by (simp_all add: first_post_distinct draws_distinct_def orderId_of_quarter amount_of_half)
  have own: "own_property (ordersDb ?w) ''55000'' = Some ?o1"
    by (simp add: first_post_distinct own_property_def)
  have d: "declined (initial_world draws_declined)"
    by (simp add: draws_declined_def payment_declined_def)
  note T = C9_store_entries [of ?w "''55000''" "[PostOrders, GetOrders]"]
  from T nd have "ordersDb (snd (post_orders ?w)) =
      set_property (ordersDb ?w) (orderId_of (rand_seq ?w (rand_pos ?w)))
        \<lparr>order_id = orderId_of (rand_seq ?w (rand_pos ?w)),
         order_amount = amount_of (rand_seq ?w (Suc (rand_pos ?w))),
         order_status = ''confirmed''\<rparr>"
    by blast
  then have db2: "ordersDb (snd (post_orders ?w)) = [(''55000'', ?o1), (''32500'', ?o2)]"
    by (simp add: oid first_post_distinct(1))
  from T have "''55000'' \<noteq> orderId_of (rand_seq ?w (rand_pos ?w)) \<longrightarrow>
      own_property (ordersDb (snd (post_orders ?w))) ''55000'' = own_property (ordersDb ?w) ''55000''"
    by blast
  then have keep: "own_property (ordersDb (snd (post_orders ?w))) ''55000'' = Some ?o1"
    by (simp add: oid own)
  from T own have srv:
    "own_property (ordersDb (serve [PostOrders, GetOrders] ?w)) ''55000'' \<noteq> None"
    by simp
  from C9_store_entries [of "initial_world draws_declined" "''55000''" "[]"] d
  have "ordersDb (snd (post_orders (initial_world draws_declined))) =
      ordersDb (initial_world draws_declined)"
    by blast
  then have e: "ordersDb (snd (post_orders (initial_world draws_declined))) = []"
    by simp
  from nd db2 keep srv d e show ?thesis by blast
qed

text \<open>
  C9 as the claim states it says that no later request overwrites an entry. The
  identifier of a request is drawn with no look at the store: when a second request
  draws 55000 again, with another amount, the assignment replaces the order stored by
  the first.
\<close>

theorem C9_second_post_overwrites_counterexample:
  "own_property (ordersDb (serve [PostOrders] (initial_world draws_collision))) ''55000''
     = Some \<lparr>order_id = ''55000'', order_amount = 255, order_status = ''confirmed''\<rparr>
   \<and> own_property (ordersDb (serve [PostOrders, PostOrders] (initial_world draws_collision)))
         ''55000''
     = Some \<lparr>order_id = ''55000'', order_amount = 265 / 2, order_status = ''confirmed''\<rparr>"
proof -
  let ?w = "snd (post_orders (initial_world draws_collision))"
  let ?o1 = "\<lparr>order_id = ''55000'', order_amount = 255, order_status = ''confirmed''\<rparr>"
  let ?o2 = "\<lparr>order_id = ''55000'', order_amount = 265 / 2, order_status = ''confirmed''\<rparr>"
  have nd: "\<not> declined ?w"
    by (simp add: declined_def first_post_collision draws_collision_def payment_declined_def)
  have oid: "orderId_of (rand_seq ?w (rand_pos ?w)) = ''55000''"
    "amount_of (rand_seq ?w (Suc (rand_pos ?w))) = 265 / 2"
    by (simp_all add: first_post_collision draws_collision_def orderId_of_half amount_of_quarter)
  have "ordersDb (snd (post_orders ?w)) =
      (if declined ?w then ordersDb ?w
       else set_property (ordersDb ?w) (orderId_of (rand_seq ?w (rand_pos ?w)))
         \<lparr>order_id = orderId_of (rand_seq ?w (rand_pos ?w)),
          order_amount = amount_of (rand_seq ?w (Suc (rand_pos ?w))),
          order_status = ''confirmed''\<rparr>)"
    by (rule post_orders_effect(1))
  then have "ordersDb (snd (post_orders ?w)) = [(''55000'', ?o2)]"
    using nd by (simp add: oid first_post_collision(1))
  then show ?thesis by (simp add: own_property_def first_post_collision(1))
qed

section \<open>The identifier of an order\<close>

lemma String_nat_small: "n < 10 \<Longrightarrow> String_nat n = [digit_char n]"
  by (subst String_nat.simps) simp

lemma String_nat_step: "10 \<le> n \<Longrightarrow> String_nat n = String_nat (n div 10) @ [digit_char (n mod 10)]"
  by (subst String_nat.simps) simp

lemma String_nat_five:
  assumes "10000 \<le> n" "n \<le> 99999"
  shows "String_nat n =
    [digit_char (n div 10000), digit_char (n div 1000 mod 10), digit_char (n div 100 mod 10),
     digit_char (n div 10 mod 10), digit_char (n mod 10)]"
proof -
  have a: "10 \<le> n" "10 \<le> n div 10" "10 \<le> n div 10 div 10" "10 \<le> n div 10 div 10 div 10"
    "n div 10 div 10 div 10 div 10 < 10"
    using assms by simp_all
  have "n div 1000 = n div (100 * 10)" by simp
  also have "\<dots> = n div 100 div 10" by (rule div_mult2_eq)
  finally have d1: "n div 1000 = n div 100 div 10" .
  have "n div 10000 = n div (100 * 10 * 10)" by simp
  also have "\<dots> = n div 100 div 10 div 10" by (simp only: div_mult2_eq)
  finally have d2: "n div 10000 = n div 100 div 10 div 10" .
  have "n div 100 = n div (10 * 10)" by simp
  also have "\<dots> = n div 10 div 10" by (rule div_mult2_eq)
  finally have d0: "n div 100 = n div 10 div 10" .
  show ?thesis
    unfolding d2 d1 d0
    using String_nat_step [OF a(1)] String_nat_step [OF a(2)] String_nat_step [OF a(3)]
      String_nat_step [OF a(4)] String_nat_small [OF a(5)]
    by (simp only: append.simps)
qed

lemma digit_char_cases:
  assumes "d < (10::nat)"
  shows "d \<in> {0, 1, 2, 3, 4, 5, 6, 7, 8, 9}"
  using assms by auto

lemma is_digit_digit_char: "d < 10 \<Longrightarrow> is_digit (digit_char d)"
  using digit_char_cases [of d] by (auto simp: is_digit_def digit_char_def)

lemma of_char_digit_char: "d < 10 \<Longrightarrow> (of_char (digit_char d) :: nat) = 48 + d"
  using digit_char_cases [of d] by (auto simp: digit_char_def)

lemma digits_value_append:
  "digits_value (xs @ [c]) acc = 10 * digits_value xs acc + (of_char c - 48)"
  by (induction xs arbitrary: acc) simp_all

lemma digits_value_String_nat: "digits_value (String_nat n) 0 = n"
proof (induction n rule: String_nat.induct)
  case (1 n)
  show ?case
  proof (cases "n < 10")
    case True
    then show ?thesis by (simp add: String_nat_small of_char_digit_char)
  next
    case False
    then have "digits_value (String_nat (n div 10)) 0 = n div 10" using "1" by simp
    then show ?thesis
      using False by (simp add: String_nat_step digits_value_append of_char_digit_char)
  qed
qed

lemma orderId_range:
  assumes "binary64 r = r" "0 \<le> r" "r < 1"
  shows "10000 \<le> Math_floor (binary64 (r * 90000)) + 10000"
    "Math_floor (binary64 (r * 90000)) + 10000 \<le> 99999"
proof -
  have "0 \<le> r * 90000" using assms(2) by simp
  then have "0 \<le> binary64 (r * 90000)" by (rule binary64_nonneg)
  then have "0 \<le> \<lfloor>binary64 (r * 90000)\<rfloor>" by simp
  then show "10000 \<le> Math_floor (binary64 (r * 90000)) + 10000" by (simp add: Math_floor_def)
  have "r \<le> 1 - 1 / 2 ^ 53" using assms by (rule binary64_below_one)
  then have "r * 90000 \<le> 90000 - 90000 / 2 ^ 53" by simp
  with \<open>0 \<le> r * 90000\<close> have "binary64 (r * 90000) < 90000" by (rule binary64_below_90000)
  then have "\<lfloor>binary64 (r * 90000)\<rfloor> < 90000" by (simp add: floor_less_iff)
  then show "Math_floor (binary64 (r * 90000)) + 10000 \<le> 99999" by (simp add: Math_floor_def)
qed

lemma orderId_of_digits:
  assumes "binary64 r = r" "0 \<le> r" "r < 1"
  shows "orderId_of r = String_nat (nat (Math_floor (binary64 (r * 90000)) + 10000))"
    and "length (orderId_of r) = 5"
    and "list_all is_digit (orderId_of r)"
    and "int (digits_value (orderId_of r) 0) = Math_floor (binary64 (r * 90000)) + 10000"
proof -
  let ?n = "nat (Math_floor (binary64 (r * 90000)) + 10000)"
  have n: "10000 \<le> ?n" "?n \<le> 99999" using orderId_range [OF assms] by simp_all
  show eq: "orderId_of r = String_nat ?n"
    using orderId_range(1) [OF assms] by (simp add: orderId_of_def String_int_def)
  show "length (orderId_of r) = 5" by (simp add: eq String_nat_five [OF n])
  have "?n div 10000 < 10" using n by simp
  then show "list_all is_digit (orderId_of r)"
    by (simp add: eq String_nat_five [OF n] is_digit_digit_char)
  show "int (digits_value (orderId_of r) 0) = Math_floor (binary64 (r * 90000)) + 10000"
    using orderId_range(1) [OF assms] by (simp add: eq digits_value_String_nat)
qed

text \<open>
  C10. The identifier of a request is \<open>String(Math.floor(r * 90000) + 10000)\<close> for its
  first draw \<open>r\<close>, the product rounded to binary64: for every binary64 value \<open>r\<close> in
  \<open>[0, 1)\<close> the integer lies in \<open>[10000, 99999]\<close> and the identifier is its decimal
  string, five digits that read back as the integer. The order of a request that
  succeeds is stored under that identifier whatever the store holds, and the response
  depends on the draws alone, not on the store: nothing checks the identifier against
  the store. Two requests can draw the same identifier: when every draw is one half,
  the first two requests of a process both answer with the order 55000, and the store
  holds one entry after them.
\<close>

theorem C10_order_identifier:
  "(binary64 r = r \<and> 0 \<le> r \<and> r < 1 \<longrightarrow>
      10000 \<le> Math_floor (binary64 (r * 90000)) + 10000
      \<and> Math_floor (binary64 (r * 90000)) + 10000 \<le> 99999
      \<and> orderId_of r = String_int (Math_floor (binary64 (r * 90000)) + 10000)
      \<and> length (orderId_of r) = 5 \<and> list_all is_digit (orderId_of r)
      \<and> int (digits_value (orderId_of r) 0) = Math_floor (binary64 (r * 90000)) + 10000)
   \<and> (\<not> declined s \<longrightarrow>
        own_property (ordersDb (snd (post_orders s))) (orderId_of (rand_seq s (rand_pos s))) =
          Some \<lparr>order_id = orderId_of (rand_seq s (rand_pos s)),
                order_amount = amount_of (rand_seq s (Suc (rand_pos s))),
                order_status = ''confirmed''\<rparr>)
   \<and> (rand_seq s = rand_seq t \<and> rand_pos s = rand_pos t \<longrightarrow>
        fst (post_orders s) = fst (post_orders t))
   \<and> fst (post_orders (initial_world draws_half)) =
       \<lparr>res_status = 201, res_body = JsonValue (OrderObject
          \<lparr>order_id = ''55000'', order_amount = 255, order_status = ''confirmed''\<rparr>)\<rparr>
   \<and> fst (post_orders (snd (post_orders (initial_world draws_half)))) =
       \<lparr>res_status = 201, res_body = JsonValue (OrderObject
          \<lparr>order_id = ''55000'', order_amount = 255, order_status = ''confirmed''\<rparr>)\<rparr>
   \<and> length (ordersDb (serve [PostOrders, PostOrders] (initial_world draws_half))) = 1"
proof -
  let ?w = "snd (post_orders (initial_world draws_half))"
  have a: "binary64 r = r \<and> 0 \<le> r \<and> r < 1 \<longrightarrow>
      10000 \<le> Math_floor (binary64 (r * 90000)) + 10000
      \<and> Math_floor (binary64 (r * 90000)) + 10000 \<le> 99999
      \<and> orderId_of r = String_int (Math_floor (binary64 (r * 90000)) + 10000)
      \<and> length (orderId_of r) = 5 \<and> list_all is_digit (orderId_of r)
      \<and> int (digits_value (orderId_of r) 0) = Math_floor (binary64 (r * 90000)) + 10000"
    using orderId_range [of r] orderId_of_digits(2-4) [of r] by (simp add: orderId_of_def)
  have b: "\<not> declined s \<longrightarrow>
        own_property (ordersDb (snd (post_orders s))) (orderId_of (rand_seq s (rand_pos s))) =
          Some \<lparr>order_id = orderId_of (rand_seq s (rand_pos s)),
                order_amount = amount_of (rand_seq s (Suc (rand_pos s))),
                order_status = ''confirmed''\<rparr>"
    by (simp add: own_property_post_orders)
  have c: "rand_seq s = rand_seq t \<and> rand_pos s = rand_pos t \<longrightarrow>
        fst (post_orders s) = fst (post_orders t)"
    by (simp add: post_orders_fst declined_def)
  have d: "fst (post_orders (initial_world draws_half)) =
       \<lparr>res_status = 201, res_body = JsonValue (OrderObject
          \<lparr>order_id = ''55000'', order_amount = 255, order_status = ''confirmed''\<rparr>)\<rparr>"
    by (simp add: post_orders_fst draws_half_def payment_declined_def orderId_of_half
          amount_of_half)
  have nd: "\<not> declined ?w"
    by (simp add: declined_def first_post_half draws_half_def payment_declined_def)
  have oid: "orderId_of (rand_seq ?w (rand_pos ?w)) = ''55000''"
    "amount_of (rand_seq ?w (Suc (rand_pos ?w))) = 255"
    by (simp_all add: first_post_half draws_half_def orderId_of_half amount_of_half)
  have e: "fst (post_orders ?w) =
       \<lparr>res_status = 201, res_body = JsonValue (OrderObject
          \<lparr>order_id = ''55000'', order_amount = 255, order_status = ''confirmed''\<rparr>)\<rparr>"
    using nd post_orders_fst [of ?w] by (simp add: oid)
  have "ordersDb (snd (post_orders ?w)) =
      (if declined ?w then ordersDb ?w
       else set_property (ordersDb ?w) (orderId_of (rand_seq ?w (rand_pos ?w)))
         \<lparr>order_id = orderId_of (rand_seq ?w (rand_pos ?w)),
          order_amount = amount_of (rand_seq ?w (Suc (rand_pos ?w))),
          order_status = ''confirmed''\<rparr>)"
    by (rule post_orders_effect(1))
  then have "ordersDb (snd (post_orders ?w)) =
      [(''55000'', \<lparr>order_id = ''55000'', order_amount = 255, order_status = ''confirmed''\<rparr>)]"
    using nd by (simp add: oid first_post_half(1))
  then have f: "length (ordersDb (serve [PostOrders, PostOrders] (initial_world draws_half))) = 1"
    by simp
  from a b c d e f show ?thesis by blast
qed

text \<open>
  C10 at the draw one half, on the empty store and on a store that holds 55000, and
  at a draw where the rounding of the product decides the identifier.
\<close>

theorem C10_order_identifier_witness:
  "binary64 (1 / 2) = 1 / 2 \<and> (0::rat) \<le> 1 / 2 \<and> (1::rat) / 2 < 1
   \<and> orderId_of (1 / 2) = ''55000'' \<and> length (orderId_of (1 / 2)) = 5
   \<and> list_all is_digit (orderId_of (1 / 2))
   \<and> digits_value (orderId_of (1 / 2)) 0 = 55000
   \<and> binary64 (18164518497061 / 2 ^ 52) = 18164518497061 / 2 ^ 52
   \<and> orderId_of (18164518497061 / 2 ^ 52) = ''10363''
   \<and> length (orderId_of (18164518497061 / 2 ^ 52)) = 5
   \<and> \<not> declined (initial_world draws_half)
   \<and> own_property (ordersDb (snd (post_orders (initial_world draws_half)))) ''55000'' =
       Some \<lparr>order_id = ''55000'', order_amount = 255, order_status = ''confirmed''\<rparr>
   \<and> fst (post_orders (initial_world draws_half)) =
       fst (post_orders ((initial_world draws_half)\<lparr>ordersDb :=
         [(''55000'', \<lparr>order_id = ''55000'', order_amount = 1, order_status = ''confirmed''\<rparr>)]\<rparr>))"
proof -
  have nd: "\<not> declined (initial_world draws_half)"
    by (simp add: draws_half_def payment_declined_def)
  have h: "binary64 (1 / 2) = 1 / 2 \<and> (0::rat) \<le> 1 / 2 \<and> (1::rat) / 2 < 1"
    using binary64_half_int [of 1] by simp
  have g: "binary64 (18164518497061 / 2 ^ 52) = 18164518497061 / 2 ^ 52"
    by (rule binary64_exact [of _ 18164518497061 "- 52"]) (simp_all add: power_int_minus)
  have g': "(0::rat) \<le> 18164518497061 / 2 ^ 52 \<and> (18164518497061::rat) / 2 ^ 52 < 1"
    by simp
  have fl: "Math_floor (binary64 (1 / 2 * 90000)) + 10000 = 55000"
    using binary64_of_int [of 45000] by (simp add: Math_floor_def)
  note T = C10_order_identifier [of "1 / 2" "initial_world draws_half"
      "(initial_world draws_half)\<lparr>ordersDb :=
         [(''55000'', \<lparr>order_id = ''55000'', order_amount = 1, order_status = ''confirmed''\<rparr>)]\<rparr>"]
  from T h have 1: "length (orderId_of (1 / 2)) = 5" "list_all is_digit (orderId_of (1 / 2))"
    "int (digits_value (orderId_of (1 / 2)) 0) = Math_floor (binary64 (1 / 2 * 90000)) + 10000"
    by blast+
  from 1(3) have 2: "digits_value (orderId_of (1 / 2)) 0 = 55000"
    unfolding fl by simp
  from C10_order_identifier [of "18164518497061 / 2 ^ 52" "initial_world draws_half"
      "initial_world draws_half"] g g'
  have 6: "length (orderId_of (18164518497061 / 2 ^ 52)) = 5" by blast
  from T nd have 3: "own_property (ordersDb (snd (post_orders (initial_world draws_half))))
       (orderId_of (rand_seq (initial_world draws_half) (rand_pos (initial_world draws_half)))) =
       Some \<lparr>order_id = orderId_of (rand_seq (initial_world draws_half) (rand_pos (initial_world draws_half))),
             order_amount = amount_of (rand_seq (initial_world draws_half) (Suc (rand_pos (initial_world draws_half)))),
             order_status = ''confirmed''\<rparr>"
    by blast
  then have 4: "own_property (ordersDb (snd (post_orders (initial_world draws_half)))) ''55000'' =
       Some \<lparr>order_id = ''55000'', order_amount = 255, order_status = ''confirmed''\<rparr>"
    by (simp add: draws_half_def orderId_of_half amount_of_half)
  from T have 5: "fst (post_orders (initial_world draws_half)) =
       fst (post_orders ((initial_world draws_half)\<lparr>ordersDb :=
         [(''55000'', \<lparr>order_id = ''55000'', order_amount = 1, order_status = ''confirmed''\<rparr>)]\<rparr>))"
    by (simp add: initial_world_def)
  from h g 1 2 4 5 6 nd orderId_of_half orderId_of_rounded_product show ?thesis by blast
qed

end
